theory Spec2Isabelle
  imports Complex_Main "HOL-Library.Word"
begin

section \<open>Data model of the drive controller (Elmo.cpp)\<close>

text \<open>
  The source file is \<^verbatim>\<open>src/elmo_ethercat_sdk/Elmo.cpp\<close>. The headers it includes
  (DriveState, Controlword, Statusword, Reading, Command, Configuration, the PDO structs,
  the object dictionary and the bus) are not part of the sources at hand. Enumerations
  are given the enumerators that Elmo.cpp names; the behaviour of the absent classes is
  either a parameter (the record \<open>Env\<close> below) or modelled from the specification and
  marked so.
\<close>

text \<open>
  Modelled from the spec: the enumeration DriveState (section 3) has the six defined
  states, the transient NotReadyToSwitchOn and an unknown value. Elmo.cpp names the six
  defined states only; the other two reach the \<^verbatim>\<open>default\<close> branches.
\<close>

datatype DriveState =
    SwitchOnDisabled
  | ReadyToSwitchOn
  | SwitchedOn
  | OperationEnabled
  | QuickStopActive
  | Fault
  | NotReadyToSwitchOn
  | UnknownState

text \<open>
  The enumerators \<^verbatim>\<open>StateTransition::_2\<close> ... \<^verbatim>\<open>StateTransition::_15\<close> that Elmo.cpp uses.
  \<open>T_unimplemented\<close> stands for any further enumerator of the absent header: it reaches
  the \<^verbatim>\<open>default\<close> branch of \<^verbatim>\<open>stateTransitionViaSdo\<close>.
\<close>

datatype StateTransition =
    T_2 | T_3 | T_4 | T_5 | T_6 | T_7 | T_8 | T_9 | T_10 | T_11 | T_12 | T_15
  | T_unimplemented

datatype ErrorType =
    ConfigurationError
  | SdoStateTransitionError
  | PdoStateTransitionError
  | PdoMappingError
  | TxPdoMappingError
  | RxPdoTypeError
  | TxPdoTypeError
  | ModeOfOperationError
  | ErrorReadingError

text \<open>
  \<open>RxPdoUnimplemented\<close> and \<open>TxPdoUnimplemented\<close> stand for any enumerator that the
  switch statements of Elmo.cpp do not name (their \<^verbatim>\<open>default\<close> branches).
\<close>

datatype RxPdoTypeEnum = RxPdoTypeEnum_NA | RxPdoStandard | RxPdoCST | RxPdoUnimplemented

datatype TxPdoTypeEnum = TxPdoTypeEnum_NA | TxPdoStandard | TxPdoCST | TxPdoUnimplemented

text \<open>A mode of operation is NA or one of the modes of the drive, kept by its number.\<close>

datatype ModeOfOperationEnum = ModeOfOperationEnum_NA | ModeOfOperation int

text \<open>Controlword and statusword are the raw 16-bit fields (spec, section 3).\<close>

type_synonym Controlword = "16 word"

type_synonym Statusword = "16 word"

datatype OdIndex =
    OD_INDEX_ERROR_CODE
  | OD_INDEX_MOTOR_RATED_CURRENT
  | OD_INDEX_MOTOR_RATED_TORQUE
  | OD_INDEX_MAX_CURRENT
  | OD_INDEX_MODES_OF_OPERATION
  | OD_INDEX_STATUSWORD
  | OD_INDEX_CONTROLWORD
  | OD_INDEX_RX_PDO_ASSIGNMENT
  | OD_INDEX_TX_PDO_ASSIGNMENT

text \<open>The value of a mailbox write, with the C++ type it is cast to.\<close>

datatype SdoValue =
    UInt8 "8 word"
  | UInt16 "16 word"
  | UInt32 "32 word"
  | Int8 ModeOfOperationEnum

text \<open>The outbound process-data records, fields in the order updateWrite fills them.\<close>

datatype RxPdo =
    RxPdoStandardFrame int int int int ModeOfOperationEnum int Controlword
  | RxPdoCSTFrame int ModeOfOperationEnum Controlword

text \<open>The inbound process-data records.\<close>

datatype TxPdoStandardFrame = TxPdoStandardFrame
  (std_actualPosition: int) (std_digitalInputs: int) (std_actualVelocity: int)
  (std_statusword: Statusword) (std_analogInput: int) (std_actualCurrent: int)
  (std_busVoltage: int)

datatype TxPdoCSTFrame = TxPdoCSTFrame
  (cst_actualPosition: int) (cst_actualTorque: int) (cst_statusword: Statusword)
  (cst_actualVelocity: int)

text \<open>
  Every call that Elmo.cpp makes on the bus, in the order of the calls. Mailbox calls
  carry index, sub-index and the complete-access flag.
\<close>

datatype BusOp =
    SdoRead OdIndex nat bool
  | SdoWrite OdIndex nat bool SdoValue
  | SdoVerifyWrite OdIndex nat bool SdoValue
  | WriteRxPdo RxPdo
  | ReadTxPdo TxPdoTypeEnum
  | GetHardwarePdoSizes
  | SetStateInit

text \<open>
  The fields of Configuration that Elmo.cpp reads in the functions below. The two
  currents are doubles in the source and reals here.
\<close>

record Configuration =
  motorRatedCurrentA :: real
  maxCurrentA :: real
  rxPdoTypeEnum :: RxPdoTypeEnum
  txPdoTypeEnum :: TxPdoTypeEnum
  modeOfOperationEnum :: ModeOfOperationEnum
  useMultipleModeOfOperations :: bool
  driveStateChangeMinTimeout :: int
  driveStateChangeMaxTimeout :: int
  minNumberOfSuccessfulTargetStateReadings :: nat

text \<open>
  Modelled from the spec: Reading (section 3) holds the telemetry, the statusword and
  the accumulated errors and faults; \<^verbatim>\<open>addError\<close> and \<^verbatim>\<open>addFault\<close> append to the
  two logs (section 7), \<^verbatim>\<open>configureReading\<close> keeps the configuration it is given.
\<close>

record Reading =
  actualPosition :: int
  digitalInputs :: int
  actualVelocity :: int
  statusword :: Statusword
  analogInput :: int
  actualCurrent :: int
  busVoltage :: int
  errors :: "ErrorType list"
  faults :: "16 word list"
  readingConfiguration :: "Configuration option"

text \<open>
  Modelled from the spec: a Command (section 3) carries the raw integer fields that the
  cyclic write sends and the requested mode of operation. Its physical-unit fields and
  their conversion are in the absent class; the conversion is the parameter
  \<open>doUnitConversion\<close> of the environment.
\<close>

record Command =
  targetPositionRaw :: int
  targetVelocityRaw :: int
  targetTorqueRaw :: int
  maxTorqueRaw :: int
  torqueOffsetRaw :: int
  getModeOfOperation :: ModeOfOperationEnum

record PdoInfo =
  rxPdoSize :: "16 word"
  txPdoSize :: "16 word"

text \<open>
  The collaborators, as parameters. A reply of the bus is indexed by the number of bus
  calls made before it, so that a run is a function of the state and of \<open>Env\<close>.
  \<^item> \<open>sdoSuccess n\<close>: whether the mailbox call number \<open>n\<close> succeeds;
  \<^item> \<open>sdoReadValue n\<close>: what the mailbox read number \<open>n\<close> leaves in its out-parameter;
  \<^item> \<open>txPdoStandard n\<close>, \<open>txPdoCST n\<close>: the inbound record read by call number \<open>n\<close>;
  \<^item> \<open>hardwarePdoSizes n\<close>: the answer of \<^verbatim>\<open>getHardwarePdoSizes\<close>;
  \<^item> \<open>defaultControlword\<close>: the default-constructed Controlword;
  \<^item> \<open>setStateTransition t\<close>: \<^verbatim>\<open>Controlword::setStateTransitionN\<close>;
  \<^item> \<open>getDriveState\<close>: \<^verbatim>\<open>Statusword::getDriveState\<close>, the decoding of a statusword;
  \<^item> \<open>doUnitConversion c\<close>: the setters of the conversion factors with the values of the
    configuration \<open>c\<close> (lines 176-190), then \<^verbatim>\<open>Command::doUnitConversion\<close>.
\<close>

record Env =
  sdoSuccess :: "nat \<Rightarrow> bool"
  sdoReadValue :: "nat \<Rightarrow> 32 word"
  txPdoStandard :: "nat \<Rightarrow> TxPdoStandardFrame"
  txPdoCST :: "nat \<Rightarrow> TxPdoCSTFrame"
  hardwarePdoSizes :: "nat \<Rightarrow> 16 word \<times> 16 word"
  defaultControlword :: Controlword
  setStateTransition :: "StateTransition \<Rightarrow> Controlword \<Rightarrow> Controlword"
  getDriveState :: "Statusword \<Rightarrow> DriveState"
  doUnitConversion :: "Configuration \<Rightarrow> Command \<Rightarrow> Command"

text \<open>
  The members of class Elmo, named as in the source without the trailing underscore.
  Time points are microseconds of the monotonic clock.
  \<open>busLog\<close> is the list of calls made on \<^verbatim>\<open>bus_\<close> so far.
\<close>

record Elmo =
  configuration :: Configuration
  reading :: Reading
  stagedCommand :: Command
  controlword :: Controlword
  modeOfOperation :: ModeOfOperationEnum
  allowModeChange :: bool
  currentRxPdoTypeEnum :: RxPdoTypeEnum
  currentTxPdoTypeEnum :: TxPdoTypeEnum
  pdoInfo :: PdoInfo
  hasRead :: bool
  conductStateChange :: bool
  stateChangeSuccessful :: bool
  targetDriveState :: DriveState
  numberOfSuccessfulTargetStateReadings :: nat
  driveStateChangeTimePoint :: int
  busLog :: "BusOp list"

section \<open>Reading, Controlword and mailbox helpers\<close>

text \<open>
  Modelled from the spec: \<^verbatim>\<open>Reading::addError\<close> and \<^verbatim>\<open>Reading::addFault\<close> append one entry
  to the error log and to the fault history of the reading (sections 4.5 and 7);
  \<^verbatim>\<open>Reading::configureReading\<close> keeps the configuration.
\<close>

definition addError :: "ErrorType \<Rightarrow> Reading \<Rightarrow> Reading" where
  "addError e r = r\<lparr>errors := errors r @ [e]\<rparr>"

definition addFault :: "16 word \<Rightarrow> Reading \<Rightarrow> Reading" where
  "addFault f r = r\<lparr>faults := faults r @ [f]\<rparr>"

definition configureReading :: "Configuration \<Rightarrow> Reading \<Rightarrow> Reading" where
  "configureReading c r = r\<lparr>readingConfiguration := Some c\<rparr>"

definition addErrorToReading :: "ErrorType \<Rightarrow> Elmo \<Rightarrow> Elmo" where
  "addErrorToReading errorType s = s\<lparr>reading := addError errorType (reading s)\<rparr>"

text \<open>Modelled from the spec: \<^verbatim>\<open>Controlword::setAllFalse\<close> clears every bit.\<close>

definition setAllFalse :: "Controlword \<Rightarrow> Controlword" where
  "setAllFalse c = 0"

definition sendSdoRead :: "Env \<Rightarrow> OdIndex \<Rightarrow> nat \<Rightarrow> bool \<Rightarrow> Elmo \<Rightarrow> (bool \<times> 32 word) \<times> Elmo" where
  "sendSdoRead env index subindex completeAccess s =
     (let n = length (busLog s) in
      ((sdoSuccess env n, sdoReadValue env n),
       s\<lparr>busLog := busLog s @ [SdoRead index subindex completeAccess]\<rparr>))"

text \<open>The read into a 16-bit out-parameter keeps the low 16 bits of the reply.\<close>

definition sendSdoReadUInt16 ::
  "Env \<Rightarrow> OdIndex \<Rightarrow> nat \<Rightarrow> bool \<Rightarrow> Elmo \<Rightarrow> (bool \<times> 16 word) \<times> Elmo" where
  "sendSdoReadUInt16 env index subindex completeAccess s =
     (let ((success, v), s1) = sendSdoRead env index subindex completeAccess s
      in ((success, ucast v), s1))"

definition sendSdoWrite :: "Env \<Rightarrow> OdIndex \<Rightarrow> nat \<Rightarrow> bool \<Rightarrow> SdoValue \<Rightarrow> Elmo \<Rightarrow> bool \<times> Elmo" where
  "sendSdoWrite env index subindex completeAccess v s =
     (let n = length (busLog s) in
      (sdoSuccess env n,
       s\<lparr>busLog := busLog s @ [SdoWrite index subindex completeAccess v]\<rparr>))"

text \<open>
  Modelled from the spec: \<^verbatim>\<open>sdoVerifyWrite\<close> (section 4.2) writes a value, reads it
  back and reports whether the two agree. It is one call on the bus whose outcome the
  environment gives; its delay argument is not modelled.
\<close>

definition sdoVerifyWrite :: "Env \<Rightarrow> OdIndex \<Rightarrow> nat \<Rightarrow> bool \<Rightarrow> SdoValue \<Rightarrow> Elmo \<Rightarrow> bool \<times> Elmo" where
  "sdoVerifyWrite env index subindex completeAccess v s =
     (let n = length (busLog s) in
      (sdoSuccess env n,
       s\<lparr>busLog := busLog s @ [SdoVerifyWrite index subindex completeAccess v]\<rparr>))"

section \<open>Transition selection on the non-blocking path\<close>

text \<open>
  \<^verbatim>\<open>Elmo::getNextStateTransitionControlword\<close> (lines 687-855): the local controlword
  is cleared, then the nested switch over the requested and the current state either
  applies one transition to it or records a PdoStateTransitionError.
\<close>

definition getNextStateTransitionControlword ::
  "Env \<Rightarrow> DriveState \<Rightarrow> DriveState \<Rightarrow> Elmo \<Rightarrow> Controlword \<times> Elmo" where
  "getNextStateTransitionControlword env requestedDriveState currentDriveState s =
     (let controlword = setAllFalse (defaultControlword env) in
      case requestedDriveState of
        SwitchOnDisabled \<Rightarrow>
          (case currentDriveState of
             SwitchOnDisabled \<Rightarrow> (controlword, addErrorToReading PdoStateTransitionError s)
           | ReadyToSwitchOn \<Rightarrow> (setStateTransition env T_7 controlword, s)
           | SwitchedOn \<Rightarrow> (setStateTransition env T_10 controlword, s)
           | OperationEnabled \<Rightarrow> (setStateTransition env T_9 controlword, s)
           | QuickStopActive \<Rightarrow> (setStateTransition env T_12 controlword, s)
           | Fault \<Rightarrow> (setStateTransition env T_15 controlword, s)
           | _ \<Rightarrow> (controlword, addErrorToReading PdoStateTransitionError s))
      | ReadyToSwitchOn \<Rightarrow>
          (case currentDriveState of
             SwitchOnDisabled \<Rightarrow> (setStateTransition env T_2 controlword, s)
           | ReadyToSwitchOn \<Rightarrow> (controlword, addErrorToReading PdoStateTransitionError s)
           | SwitchedOn \<Rightarrow> (setStateTransition env T_6 controlword, s)
           | OperationEnabled \<Rightarrow> (setStateTransition env T_8 controlword, s)
           | QuickStopActive \<Rightarrow> (setStateTransition env T_12 controlword, s)
           | Fault \<Rightarrow> (setStateTransition env T_15 controlword, s)
           | _ \<Rightarrow> (controlword, addErrorToReading PdoStateTransitionError s))
      | SwitchedOn \<Rightarrow>
          (case currentDriveState of
             SwitchOnDisabled \<Rightarrow> (setStateTransition env T_2 controlword, s)
           | ReadyToSwitchOn \<Rightarrow> (setStateTransition env T_3 controlword, s)
           | SwitchedOn \<Rightarrow> (controlword, addErrorToReading PdoStateTransitionError s)
           | OperationEnabled \<Rightarrow> (setStateTransition env T_5 controlword, s)
           | QuickStopActive \<Rightarrow> (setStateTransition env T_12 controlword, s)
           | Fault \<Rightarrow> (setStateTransition env T_15 controlword, s)
           | _ \<Rightarrow> (controlword, addErrorToReading PdoStateTransitionError s))
      | OperationEnabled \<Rightarrow>
          (case currentDriveState of
             SwitchOnDisabled \<Rightarrow> (setStateTransition env T_2 controlword, s)
           | ReadyToSwitchOn \<Rightarrow> (setStateTransition env T_3 controlword, s)
           | SwitchedOn \<Rightarrow> (setStateTransition env T_4 controlword, s)
           | OperationEnabled \<Rightarrow> (controlword, addErrorToReading PdoStateTransitionError s)
           | QuickStopActive \<Rightarrow> (setStateTransition env T_12 controlword, s)
           | Fault \<Rightarrow> (setStateTransition env T_15 controlword, s)
           | _ \<Rightarrow> (controlword, addErrorToReading PdoStateTransitionError s))
      | QuickStopActive \<Rightarrow>
          (case currentDriveState of
             SwitchOnDisabled \<Rightarrow> (setStateTransition env T_2 controlword, s)
           | ReadyToSwitchOn \<Rightarrow> (setStateTransition env T_3 controlword, s)
           | SwitchedOn \<Rightarrow> (setStateTransition env T_4 controlword, s)
           | OperationEnabled \<Rightarrow> (setStateTransition env T_11 controlword, s)
           | QuickStopActive \<Rightarrow> (controlword, addErrorToReading PdoStateTransitionError s)
           | Fault \<Rightarrow> (setStateTransition env T_15 controlword, s)
           | _ \<Rightarrow> (controlword, addErrorToReading PdoStateTransitionError s))
      | _ \<Rightarrow> (controlword, addErrorToReading PdoStateTransitionError s))"

section \<open>The blocking state change over the mailbox\<close>

text \<open>
  \<^verbatim>\<open>Elmo::getStatuswordViaSdo\<close> (lines 240-245): the statusword is set from whatever
  the read left in the 16-bit out-parameter, also when the read failed.
\<close>

definition getStatuswordViaSdo :: "Env \<Rightarrow> Elmo \<Rightarrow> (bool \<times> Statusword) \<times> Elmo" where
  "getStatuswordViaSdo env s =
     (let ((success, statuswordValue), s1) =
            sendSdoReadUInt16 env OD_INDEX_STATUSWORD 0 False s
      in ((success, statuswordValue), s1))"

definition setControlwordViaSdo :: "Env \<Rightarrow> Controlword \<Rightarrow> Elmo \<Rightarrow> bool \<times> Elmo" where
  "setControlwordViaSdo env cw s =
     sendSdoWrite env OD_INDEX_CONTROLWORD 0 False (UInt16 cw) s"

text \<open>\<^verbatim>\<open>Elmo::stateTransitionViaSdo\<close> (lines 432-488).\<close>

definition stateTransitionViaSdo :: "Env \<Rightarrow> StateTransition \<Rightarrow> Elmo \<Rightarrow> bool \<times> Elmo" where
  "stateTransitionViaSdo env stateTransition s =
     (let cw = defaultControlword env in
      case stateTransition of
        T_2 \<Rightarrow> setControlwordViaSdo env (setStateTransition env T_2 cw) s
      | T_3 \<Rightarrow> setControlwordViaSdo env (setStateTransition env T_3 cw) s
      | T_4 \<Rightarrow> setControlwordViaSdo env (setStateTransition env T_4 cw) s
      | T_5 \<Rightarrow> setControlwordViaSdo env (setStateTransition env T_5 cw) s
      | T_6 \<Rightarrow> setControlwordViaSdo env (setStateTransition env T_6 cw) s
      | T_7 \<Rightarrow> setControlwordViaSdo env (setStateTransition env T_7 cw) s
      | T_8 \<Rightarrow> setControlwordViaSdo env (setStateTransition env T_8 cw) s
      | T_9 \<Rightarrow> setControlwordViaSdo env (setStateTransition env T_9 cw) s
      | T_10 \<Rightarrow> setControlwordViaSdo env (setStateTransition env T_10 cw) s
      | T_11 \<Rightarrow> setControlwordViaSdo env (setStateTransition env T_11 cw) s
      | T_12 \<Rightarrow> setControlwordViaSdo env (setStateTransition env T_12 cw) s
      | T_15 \<Rightarrow> setControlwordViaSdo env (setStateTransition env T_15 cw) s
      | _ \<Rightarrow> (False, addErrorToReading SdoStateTransitionError s))"

text \<open>
  A run of statements \<^verbatim>\<open>success &= stateTransitionViaSdo(StateTransition::_N);\<close>,
  one per element of the list, in order. The compound assignment evaluates its right
  side whatever \<^verbatim>\<open>success\<close> holds.
\<close>

fun stateTransitionsViaSdo :: "Env \<Rightarrow> StateTransition list \<Rightarrow> bool \<times> Elmo \<Rightarrow> bool \<times> Elmo" where
  "stateTransitionsViaSdo env [] (success, s) = (success, s)"
| "stateTransitionsViaSdo env (t # ts) (success, s) =
     (let (r, s1) = stateTransitionViaSdo env t s
      in stateTransitionsViaSdo env ts (success \<and> r, s1))"

text \<open>\<^verbatim>\<open>Elmo::setDriveStateViaSdo\<close> (lines 251-430).\<close>

definition setDriveStateViaSdo :: "Env \<Rightarrow> DriveState \<Rightarrow> Elmo \<Rightarrow> bool \<times> Elmo" where
  "setDriveStateViaSdo env driveState s0 =
     (let ((r, currentStatusword), s) = getStatuswordViaSdo env s0;
          success = (True \<and> r);
          currentDriveState = getDriveState env currentStatusword
      in
      case driveState of
        SwitchOnDisabled \<Rightarrow>
          (case currentDriveState of
             SwitchOnDisabled \<Rightarrow> (success \<and> True, s)
           | ReadyToSwitchOn \<Rightarrow> stateTransitionsViaSdo env [T_7] (success, s)
           | SwitchedOn \<Rightarrow> stateTransitionsViaSdo env [T_10] (success, s)
           | OperationEnabled \<Rightarrow> stateTransitionsViaSdo env [T_9] (success, s)
           | QuickStopActive \<Rightarrow> stateTransitionsViaSdo env [T_12] (success, s)
           | Fault \<Rightarrow> stateTransitionsViaSdo env [T_15] (success, s)
           | _ \<Rightarrow> (False, addErrorToReading SdoStateTransitionError s))
      | ReadyToSwitchOn \<Rightarrow>
          (case currentDriveState of
             SwitchOnDisabled \<Rightarrow> stateTransitionsViaSdo env [T_2] (success, s)
           | ReadyToSwitchOn \<Rightarrow> (success \<and> True, s)
           | SwitchedOn \<Rightarrow> stateTransitionsViaSdo env [T_6] (success, s)
           | OperationEnabled \<Rightarrow> stateTransitionsViaSdo env [T_8] (success, s)
           | QuickStopActive \<Rightarrow> stateTransitionsViaSdo env [T_12, T_2] (success, s)
           | Fault \<Rightarrow> stateTransitionsViaSdo env [T_15, T_2] (success, s)
           | _ \<Rightarrow> (False, addErrorToReading SdoStateTransitionError s))
      | SwitchedOn \<Rightarrow>
          (case currentDriveState of
             SwitchOnDisabled \<Rightarrow> stateTransitionsViaSdo env [T_2, T_3] (success, s)
           | ReadyToSwitchOn \<Rightarrow> stateTransitionsViaSdo env [T_3] (success, s)
           | SwitchedOn \<Rightarrow> (success \<and> True, s)
           | OperationEnabled \<Rightarrow> stateTransitionsViaSdo env [T_5] (success, s)
           | QuickStopActive \<Rightarrow> stateTransitionsViaSdo env [T_12, T_2, T_3] (success, s)
           | Fault \<Rightarrow> stateTransitionsViaSdo env [T_15, T_2, T_3] (success, s)
           | _ \<Rightarrow> (False, addErrorToReading SdoStateTransitionError s))
      | OperationEnabled \<Rightarrow>
          (case currentDriveState of
             SwitchOnDisabled \<Rightarrow> stateTransitionsViaSdo env [T_2, T_3, T_4] (success, s)
           | ReadyToSwitchOn \<Rightarrow> stateTransitionsViaSdo env [T_3, T_4] (success, s)
           | SwitchedOn \<Rightarrow> stateTransitionsViaSdo env [T_4] (success, s)
           | OperationEnabled \<Rightarrow> (success \<and> True, s)
           | QuickStopActive \<Rightarrow> stateTransitionsViaSdo env [T_12, T_2, T_3, T_4] (success, s)
           | Fault \<Rightarrow> stateTransitionsViaSdo env [T_15, T_2, T_3, T_4] (success, s)
           | _ \<Rightarrow> (False, addErrorToReading SdoStateTransitionError s))
      | QuickStopActive \<Rightarrow>
          (case currentDriveState of
             SwitchOnDisabled \<Rightarrow> stateTransitionsViaSdo env [T_2, T_3, T_4, T_11] (success, s)
           | ReadyToSwitchOn \<Rightarrow> stateTransitionsViaSdo env [T_3, T_4, T_11] (success, s)
           | SwitchedOn \<Rightarrow> stateTransitionsViaSdo env [T_4, T_11] (success, s)
           | OperationEnabled \<Rightarrow> stateTransitionsViaSdo env [T_11] (success, s)
           | QuickStopActive \<Rightarrow> (success \<and> True, s)
           | Fault \<Rightarrow> stateTransitionsViaSdo env [T_15, T_2, T_3, T_4, T_11] (success, s)
           | _ \<Rightarrow> (False, addErrorToReading SdoStateTransitionError s))
      | _ \<Rightarrow> (False, addErrorToReading SdoStateTransitionError s))"

section \<open>PDO mapping and configuration before cyclic operation\<close>

text \<open>\<^verbatim>\<open>Elmo::configureRxPdo\<close> (lines 643-663).\<close>

definition configureRxPdo :: "RxPdoTypeEnum \<Rightarrow> Elmo \<Rightarrow> bool \<times> Elmo" where
  "configureRxPdo rxType s =
     (if rxType = RxPdoTypeEnum_NA then (False, addErrorToReading RxPdoTypeError s)
      else if rxType = currentRxPdoTypeEnum s then (True, s)
      else (True, s\<lparr>currentRxPdoTypeEnum := rxType\<rparr>))"

text \<open>\<^verbatim>\<open>Elmo::configureTxPdo\<close> (lines 665-685); line 671 adds RxPdoTypeError.\<close>

definition configureTxPdo :: "TxPdoTypeEnum \<Rightarrow> Elmo \<Rightarrow> bool \<times> Elmo" where
  "configureTxPdo txType s =
     (if txType = TxPdoTypeEnum_NA then (False, addErrorToReading RxPdoTypeError s)
      else if txType = currentTxPdoTypeEnum s then (True, s)
      else (True, s\<lparr>currentTxPdoTypeEnum := txType\<rparr>))"

text \<open>
  A run of statements \<^verbatim>\<open>success &= sdoVerifyWrite(index, subindex, false, value, ...);\<close>,
  one per element of the list, in order. The \<^verbatim>\<open>usleep\<close> calls between them only wait
  and are left out.
\<close>

fun sdoVerifyWrites :: "Env \<Rightarrow> (OdIndex \<times> nat \<times> SdoValue) list \<Rightarrow> bool \<times> Elmo \<Rightarrow> bool \<times> Elmo" where
  "sdoVerifyWrites env [] (success, s) = (success, s)"
| "sdoVerifyWrites env ((index, subindex, v) # ws) (success, s) =
     (let (r, s1) = sdoVerifyWrite env index subindex False v s
      in sdoVerifyWrites env ws (success \<and> r, s1))"

text \<open>\<^verbatim>\<open>Elmo::mapPdos\<close> (lines 556-641).\<close>

definition mapPdos :: "Env \<Rightarrow> RxPdoTypeEnum \<Rightarrow> TxPdoTypeEnum \<Rightarrow> Elmo \<Rightarrow> bool \<times> Elmo" where
  "mapPdos env rxType txType s0 =
     (let (rxSuccess, s1) =
            (case rxType of
               RxPdoStandard \<Rightarrow>
                 sdoVerifyWrites env
                   [(OD_INDEX_RX_PDO_ASSIGNMENT, 0, UInt8 0),
                    (OD_INDEX_RX_PDO_ASSIGNMENT, 1, UInt16 0x1605),
                    (OD_INDEX_RX_PDO_ASSIGNMENT, 2, UInt16 0x1618),
                    (OD_INDEX_RX_PDO_ASSIGNMENT, 0, UInt8 2)] (True, s0)
             | RxPdoCST \<Rightarrow>
                 sdoVerifyWrites env
                   [(OD_INDEX_RX_PDO_ASSIGNMENT, 0, UInt8 0),
                    (OD_INDEX_RX_PDO_ASSIGNMENT, 1, UInt16 0x1602),
                    (OD_INDEX_RX_PDO_ASSIGNMENT, 2, UInt16 0x160b),
                    (OD_INDEX_RX_PDO_ASSIGNMENT, 0, UInt8 2)] (True, s0)
             | RxPdoTypeEnum_NA \<Rightarrow> (False, addErrorToReading PdoMappingError s0)
             | _ \<Rightarrow> (False, addErrorToReading PdoMappingError s0));
          (txSuccess, s2) =
            (case txType of
               TxPdoStandard \<Rightarrow>
                 sdoVerifyWrites env
                   [(OD_INDEX_TX_PDO_ASSIGNMENT, 0, UInt8 0),
                    (OD_INDEX_TX_PDO_ASSIGNMENT, 1, UInt16 0x1a03),
                    (OD_INDEX_TX_PDO_ASSIGNMENT, 2, UInt16 0x1a1d),
                    (OD_INDEX_TX_PDO_ASSIGNMENT, 3, UInt16 0x1a1f),
                    (OD_INDEX_TX_PDO_ASSIGNMENT, 4, UInt16 0x1a18),
                    (OD_INDEX_TX_PDO_ASSIGNMENT, 0, UInt8 4)] (True, s1)
             | TxPdoCST \<Rightarrow>
                 sdoVerifyWrites env
                   [(OD_INDEX_TX_PDO_ASSIGNMENT, 0, UInt8 0),
                    (OD_INDEX_TX_PDO_ASSIGNMENT, 1, UInt16 0x1a02),
                    (OD_INDEX_TX_PDO_ASSIGNMENT, 2, UInt16 0x1a11),
                    (OD_INDEX_TX_PDO_ASSIGNMENT, 0, UInt8 2)] (True, s1)
             | TxPdoTypeEnum_NA \<Rightarrow> (False, addErrorToReading TxPdoMappingError s1)
             | _ \<Rightarrow> (False, addErrorToReading TxPdoMappingError s1));
          (rxSuccess2, s3) =
            (if rxSuccess
             then (let (r, s') = configureRxPdo rxType s2 in (rxSuccess \<and> r, s'))
             else (rxSuccess, s2));
          (txSuccess2, s4) =
            (if txSuccess
             then (let (r, s') = configureTxPdo txType s3 in (txSuccess \<and> r, s'))
             else (txSuccess, s3))
      in (txSuccess2 \<and> rxSuccess2, s4))"

text \<open>
  \<^verbatim>\<open>round\<close> of the C library: the nearest integer, a half away from zero. (\<open>round\<close> of
  HOL takes a half upwards; \<^verbatim>\<open>floor\<close> is the same in both.)
\<close>

definition c_round :: "real \<Rightarrow> int" where
  "c_round x = (if 0 \<le> x then \<lfloor>x + 1 / 2\<rfloor> else - \<lfloor>- x + 1 / 2\<rfloor>)"

text \<open>\<^verbatim>\<open>Elmo::autoConfigurePdoSizes\<close> (lines 857-861).\<close>

definition autoConfigurePdoSizes :: "Env \<Rightarrow> Elmo \<Rightarrow> Elmo" where
  "autoConfigurePdoSizes env s =
     (let pdoSizes = hardwarePdoSizes env (length (busLog s))
      in s\<lparr>pdoInfo := \<lparr>rxPdoSize = fst pdoSizes, txPdoSize = snd pdoSizes\<rparr>,
            busLog := busLog s @ [GetHardwarePdoSizes]\<rparr>)"

text \<open>
  \<^verbatim>\<open>Elmo::runPreopConfiguration\<close> (lines 129-171). The two currents are reals, so the
  products are exact where the doubles of the source round; the casts of a double to an
  unsigned integer are taken modulo the width of the target, where the C++ leaves them
  undefined outside its range.
\<close>

definition runPreopConfiguration :: "Env \<Rightarrow> Elmo \<Rightarrow> bool \<times> Elmo" where
  "runPreopConfiguration env s0 =
     (let (success1, s1) =
            (if motorRatedCurrentA (configuration s0) = 0
             then (let ((r, motorRatedCurrent), s) =
                         sendSdoRead env OD_INDEX_MOTOR_RATED_CURRENT 0 False s0;
                       c = (configuration s)\<lparr>motorRatedCurrentA :=
                              real (unat motorRatedCurrent) / 1000\<rparr>
                   in (True \<and> r,
                       s\<lparr>configuration := c, reading := configureReading c (reading s)\<rparr>))
             else (True, s0));
          (r2, s2) = setDriveStateViaSdo env ReadyToSwitchOn s1;
          success2 = (success1 \<and> r2);
          (r3, s3) = mapPdos env (rxPdoTypeEnum (configuration s2))
                       (txPdoTypeEnum (configuration s2)) s2;
          success3 = (success2 \<and> r3);
          (r4, s4) = sdoVerifyWrite env OD_INDEX_MODES_OF_OPERATION 0 False
                       (Int8 (modeOfOperationEnum (configuration s3))) s3;
          success4 = (success3 \<and> r4);
          s5 = autoConfigurePdoSizes env s4;
          motorRatedCurrent =
            (word_of_int (c_round (1000 * motorRatedCurrentA (configuration s5))) :: 32 word);
          (r6, s6) = sdoVerifyWrite env OD_INDEX_MOTOR_RATED_CURRENT 0 False
                       (UInt32 motorRatedCurrent) s5;
          success6 = (success4 \<and> r6);
          (r7, s7) = sdoVerifyWrite env OD_INDEX_MOTOR_RATED_TORQUE 0 False
                       (UInt32 motorRatedCurrent) s6;
          success7 = (success6 \<and> r7);
          maxCurrent =
            (word_of_int \<lfloor>1000 * maxCurrentA (configuration s7)\<rfloor> :: 16 word);
          (r8, s8) = sdoVerifyWrite env OD_INDEX_MAX_CURRENT 0 False (UInt16 maxCurrent) s7;
          success = (success7 \<and> r8)
      in if \<not> success then (success, addErrorToReading ConfigurationError s8)
         else (success, s8))"

section \<open>The non-blocking state-change engine and the cyclic halves\<close>

text \<open>
  \<^verbatim>\<open>Elmo::engagePdoStateMachine\<close> (lines 871-904). \<open>now1\<close> and \<open>now2\<close> are the two
  readings of the monotonic clock (lines 877 and 897).
  \<^verbatim>\<open>reading_.getDriveState()\<close> decodes the statusword that the reading holds.
\<close>

definition engagePdoStateMachine :: "Env \<Rightarrow> int \<Rightarrow> int \<Rightarrow> Elmo \<Rightarrow> Elmo" where
  "engagePdoStateMachine env now1 now2 s =
     (let microsecondsSinceChange = now1 - driveStateChangeTimePoint s;
          currentDriveState = getDriveState env (statusword (reading s))
      in
      if currentDriveState = targetDriveState s then
        (let s1 = s\<lparr>numberOfSuccessfulTargetStateReadings :=
                      numberOfSuccessfulTargetStateReadings s + 1\<rparr>
         in if numberOfSuccessfulTargetStateReadings s1
                 \<ge> minNumberOfSuccessfulTargetStateReadings (configuration s1)
            then s1\<lparr>conductStateChange := False,
                    numberOfSuccessfulTargetStateReadings := 0,
                    stateChangeSuccessful := True\<rparr>
            else s1\<lparr>hasRead := False\<rparr>)
      else if microsecondsSinceChange > driveStateChangeMinTimeout (configuration s) then
        (let (cw, s1) =
               getNextStateTransitionControlword env (targetDriveState s) currentDriveState s
         in s1\<lparr>controlword := cw, driveStateChangeTimePoint := now2, hasRead := False\<rparr>)
      else s\<lparr>hasRead := False\<rparr>)"

text \<open>The switch over \<^verbatim>\<open>currentRxPdoTypeEnum_\<close> that ends updateWrite (lines 46-74).\<close>

definition writeRxPdo :: "Elmo \<Rightarrow> Elmo" where
  "writeRxPdo s =
     (case currentRxPdoTypeEnum s of
        RxPdoStandard \<Rightarrow>
          s\<lparr>busLog := busLog s @
               [WriteRxPdo (RxPdoStandardFrame
                  (targetPositionRaw (stagedCommand s))
                  (targetVelocityRaw (stagedCommand s))
                  (targetTorqueRaw (stagedCommand s))
                  (maxTorqueRaw (stagedCommand s))
                  (modeOfOperation s)
                  (torqueOffsetRaw (stagedCommand s))
                  (controlword s))]\<rparr>
      | RxPdoCST \<Rightarrow>
          s\<lparr>busLog := busLog s @
               [WriteRxPdo (RxPdoCSTFrame
                  (targetTorqueRaw (stagedCommand s))
                  (modeOfOperation s)
                  (controlword s))]\<rparr>
      | _ \<Rightarrow> addErrorToReading RxPdoTypeError s)"

text \<open>\<^verbatim>\<open>Elmo::updateWrite\<close> (lines 23-75).\<close>

definition updateWrite :: "Env \<Rightarrow> int \<Rightarrow> int \<Rightarrow> Elmo \<Rightarrow> Elmo" where
  "updateWrite env now1 now2 s =
     (if modeOfOperation s = ModeOfOperationEnum_NA
      then s\<lparr>reading := addError ModeOfOperationError (reading s)\<rparr>
      else writeRxPdo
             (if conductStateChange s \<and> hasRead s
              then engagePdoStateMachine env now1 now2 s
              else s))"

text \<open>\<^verbatim>\<open>Elmo::updateRead\<close> (lines 77-127).\<close>

definition updateRead :: "Env \<Rightarrow> Elmo \<Rightarrow> Elmo" where
  "updateRead env s0 =
     (let n = length (busLog s0);
          s1 = (case currentTxPdoTypeEnum s0 of
                  TxPdoStandard \<Rightarrow>
                    (let txPdo = txPdoStandard env n
                     in s0\<lparr>reading := (reading s0)
                              \<lparr>actualPosition := std_actualPosition txPdo,
                               digitalInputs := std_digitalInputs txPdo,
                               actualVelocity := std_actualVelocity txPdo,
                               statusword := std_statusword txPdo,
                               analogInput := std_analogInput txPdo,
                               actualCurrent := std_actualCurrent txPdo,
                               busVoltage := std_busVoltage txPdo\<rparr>,
                            busLog := busLog s0 @ [ReadTxPdo TxPdoStandard]\<rparr>)
                | TxPdoCST \<Rightarrow>
                    (let txPdo = txPdoCST env n
                     in s0\<lparr>reading := (reading s0)
                              \<lparr>actualPosition := cst_actualPosition txPdo,
                               actualCurrent := cst_actualTorque txPdo,
                               statusword := cst_statusword txPdo,
                               actualVelocity := cst_actualVelocity txPdo\<rparr>,
                            busLog := busLog s0 @ [ReadTxPdo TxPdoCST]\<rparr>)
                | _ \<Rightarrow> s0\<lparr>reading := addError TxPdoTypeError (reading s0)\<rparr>);
          s2 = (if \<not> hasRead s1 then s1\<lparr>hasRead := True\<rparr> else s1)
      in
      if getDriveState env (statusword (reading s2)) = Fault then
        (let ((r, fault), s3) = sendSdoReadUInt16 env OD_INDEX_ERROR_CODE 0 False s2
         in if r then s3\<lparr>reading := addFault fault (reading s3)\<rparr>
            else s3\<lparr>reading := addError ErrorReadingError (reading s3)\<rparr>)
      else s2)"

section \<open>Requesting a state change over process data\<close>

text \<open>
  The waiting loop of \<^verbatim>\<open>Elmo::setDriveStateViaPdo\<close> (lines 531-550). Between two
  iterations the lock is released and the cyclic thread may set the success flag, so
  what iteration \<open>i\<close> reads is an input: \<open>flag i\<close> is \<^verbatim>\<open>stateChangeSuccessful_\<close> and
  \<open>clock i\<close> the monotonic clock as that iteration reads them. The loop need not end;
  not returning is \<open>None\<close>.
\<close>

partial_function (option) waitForStateChange ::
  "(nat \<Rightarrow> bool) \<Rightarrow> (nat \<Rightarrow> int) \<Rightarrow> int \<Rightarrow> int \<Rightarrow> nat \<Rightarrow> bool option" where
  "waitForStateChange flag clock startTimePoint maxTimeout i =
     (if flag i then Some True
      else if clock i - startTimePoint > maxTimeout then Some False
      else waitForStateChange flag clock startTimePoint maxTimeout (Suc i))"

text \<open>
  What \<^verbatim>\<open>Elmo::setDriveStateViaPdo\<close> (lines 490-554) writes before it returns or
  waits (lines 502-515); \<open>now1\<close> is the clock at line 515.
\<close>

definition requestStateChange :: "DriveState \<Rightarrow> int \<Rightarrow> Elmo \<Rightarrow> Elmo" where
  "requestStateChange driveState now1 s =
     s\<lparr>stateChangeSuccessful := False,
       conductStateChange := True,
       targetDriveState := driveState,
       hasRead := False,
       driveStateChangeTimePoint := now1\<rparr>"

text \<open>
  \<^verbatim>\<open>Elmo::setDriveStateViaPdo\<close>. \<open>now2\<close> is the clock at line 518. The first iteration
  of the loop runs under the lock taken at line 498 and reads the flag that line 502
  has just cleared; later iterations read \<open>flag\<close>. The state returned is the one this
  call has written.
\<close>

definition setDriveStateViaPdo ::
  "DriveState \<Rightarrow> bool \<Rightarrow> int \<Rightarrow> int \<Rightarrow> (nat \<Rightarrow> bool) \<Rightarrow> (nat \<Rightarrow> int) \<Rightarrow> Elmo
     \<Rightarrow> (bool \<times> Elmo) option" where
  "setDriveStateViaPdo driveState waitForState now1 now2 flag clock s =
     (let s1 = requestStateChange driveState now1 s
      in if \<not> waitForState then Some (True, s1)
         else map_option (\<lambda>success. (success, s1))
                (waitForStateChange
                   (\<lambda>i. if i = 0 then stateChangeSuccessful s1 else flag i)
                   clock now2 (driveStateChangeMaxTimeout (configuration s1)) 0))"

section \<open>Staging a command, loading a configuration, shutting down\<close>

text \<open>\<^verbatim>\<open>Elmo::shutdown\<close> (lines 19-21).\<close>

definition shutdown :: "Elmo \<Rightarrow> Elmo" where
  "shutdown s = s\<lparr>busLog := busLog s @ [SetStateInit]\<rparr>"

text \<open>\<^verbatim>\<open>Elmo::stageCommand\<close> (lines 173-198).\<close>

definition stageCommand :: "Env \<Rightarrow> Command \<Rightarrow> Elmo \<Rightarrow> Elmo" where
  "stageCommand env command s =
     (let s1 = s\<lparr>stagedCommand := doUnitConversion env (configuration s) command\<rparr>
      in if allowModeChange s1 then s1\<lparr>modeOfOperation := getModeOfOperation command\<rparr>
         else s1)"

text \<open>\<^verbatim>\<open>Elmo::loadConfiguration\<close> (lines 220-234).\<close>

definition loadConfiguration :: "Configuration \<Rightarrow> Elmo \<Rightarrow> bool \<times> Elmo" where
  "loadConfiguration c s =
     (True,
      s\<lparr>reading := configureReading c (reading s),
        allowModeChange :=
          (((True \<and> useMultipleModeOfOperations c)
             \<and> rxPdoTypeEnum c = RxPdoStandard)
            \<and> txPdoTypeEnum c = TxPdoStandard),
        modeOfOperation := modeOfOperationEnum c,
        configuration := c\<rparr>)"

section \<open>Runs of the public operations\<close>

text \<open>
  The calls that the application and the bus cycle make on one drive, taken one after
  the other. The two cyclic halves, the engine, \<^verbatim>\<open>configureRxPdo\<close>, \<^verbatim>\<open>configureTxPdo\<close>
  and lines 498-515 of \<^verbatim>\<open>setDriveStateViaPdo\<close> hold the lock of the drive and exclude each
  other; \<open>SetDriveStateViaPdo\<close> stands for those lines, the waiting loop after them only
  reads. The mailbox functions run before cyclic operation starts and \<^verbatim>\<open>stageCommand\<close>
  takes a lock of its own: what happens when they overlap with the cyclic halves is not
  modelled. \<^verbatim>\<open>Elmo::startup\<close> is \<open>ConfigureRxPdo\<close> followed, when it succeeds, by
  \<open>ConfigureTxPdo\<close>; the remaining member functions only read.
\<close>

datatype Call =
    UpdateRead
  | UpdateWrite int int
  | SetDriveStateViaPdo DriveState int
  | SetDriveStateViaSdo DriveState
  | MapPdos RxPdoTypeEnum TxPdoTypeEnum
  | ConfigureRxPdo RxPdoTypeEnum
  | ConfigureTxPdo TxPdoTypeEnum
  | RunPreopConfiguration
  | AutoConfigurePdoSizes
  | StageCommand Command
  | LoadConfiguration Configuration
  | Shutdown

fun call :: "Env \<Rightarrow> Call \<Rightarrow> Elmo \<Rightarrow> Elmo" where
  "call env UpdateRead s = updateRead env s"
| "call env (UpdateWrite now1 now2) s = updateWrite env now1 now2 s"
| "call env (SetDriveStateViaPdo driveState now1) s = requestStateChange driveState now1 s"
| "call env (SetDriveStateViaSdo driveState) s = snd (setDriveStateViaSdo env driveState s)"
| "call env (MapPdos rxType txType) s = snd (mapPdos env rxType txType s)"
| "call env (ConfigureRxPdo rxType) s = snd (configureRxPdo rxType s)"
| "call env (ConfigureTxPdo txType) s = snd (configureTxPdo txType s)"
| "call env RunPreopConfiguration s = snd (runPreopConfiguration env s)"
| "call env AutoConfigurePdoSizes s = autoConfigurePdoSizes env s"
| "call env (StageCommand command) s = stageCommand env command s"
| "call env (LoadConfiguration c) s = snd (loadConfiguration c s)"
| "call env Shutdown s = shutdown s"

fun calls :: "Env \<Rightarrow> Call list \<Rightarrow> Elmo \<Rightarrow> Elmo" where
  "calls env [] s = s"
| "calls env (c # cs) s = calls env cs (call env c s)"

section \<open>Vocabulary of the statements\<close>

text \<open>The states that section 4.1 of the specification takes as requests, and the six defined states.\<close>

definition requestableDriveStates :: "DriveState list" where
  "requestableDriveStates =
     [SwitchOnDisabled, ReadyToSwitchOn, SwitchedOn, OperationEnabled, QuickStopActive]"

definition definedDriveStates :: "DriveState list" where
  "definedDriveStates =
     [SwitchOnDisabled, ReadyToSwitchOn, SwitchedOn, OperationEnabled, QuickStopActive, Fault]"

text \<open>
  The transition table of the device profile as section 4.1 of the specification
  describes it, written flat: the key is (requested state, current state), the value the
  numbered transition that leaves the current state towards the requested one.
\<close>

definition standardTransitionTable :: "((DriveState \<times> DriveState) \<times> StateTransition) list" where
  "standardTransitionTable =
     [((SwitchOnDisabled, ReadyToSwitchOn), T_7),
      ((SwitchOnDisabled, SwitchedOn), T_10),
      ((SwitchOnDisabled, OperationEnabled), T_9),
      ((SwitchOnDisabled, QuickStopActive), T_12),
      ((SwitchOnDisabled, Fault), T_15),
      ((ReadyToSwitchOn, SwitchOnDisabled), T_2),
      ((ReadyToSwitchOn, SwitchedOn), T_6),
      ((ReadyToSwitchOn, OperationEnabled), T_8),
      ((ReadyToSwitchOn, QuickStopActive), T_12),
      ((ReadyToSwitchOn, Fault), T_15),
      ((SwitchedOn, SwitchOnDisabled), T_2),
      ((SwitchedOn, ReadyToSwitchOn), T_3),
      ((SwitchedOn, OperationEnabled), T_5),
      ((SwitchedOn, QuickStopActive), T_12),
      ((SwitchedOn, Fault), T_15),
      ((OperationEnabled, SwitchOnDisabled), T_2),
      ((OperationEnabled, ReadyToSwitchOn), T_3),
      ((OperationEnabled, SwitchedOn), T_4),
      ((OperationEnabled, QuickStopActive), T_12),
      ((OperationEnabled, Fault), T_15),
      ((QuickStopActive, SwitchOnDisabled), T_2),
      ((QuickStopActive, ReadyToSwitchOn), T_3),
      ((QuickStopActive, SwitchedOn), T_4),
      ((QuickStopActive, OperationEnabled), T_11),
      ((QuickStopActive, Fault), T_15)]"

text \<open>The object-dictionary index that a bus call addresses, if it is a mailbox call.\<close>

fun opIndex :: "BusOp \<Rightarrow> OdIndex option" where
  "opIndex (SdoRead index subindex completeAccess) = Some index"
| "opIndex (SdoWrite index subindex completeAccess v) = Some index"
| "opIndex (SdoVerifyWrite index subindex completeAccess v) = Some index"
| "opIndex (WriteRxPdo frame) = None"
| "opIndex (ReadTxPdo txType) = None"
| "opIndex GetHardwarePdoSizes = None"
| "opIndex SetStateInit = None"

text \<open>What a call has added to the error log of the reading and to the calls on the bus.\<close>

definition newErrors :: "Elmo \<Rightarrow> Elmo \<Rightarrow> ErrorType list" where
  "newErrors s s' = drop (length (errors (reading s))) (errors (reading s'))"

definition newBusOps :: "Elmo \<Rightarrow> Elmo \<Rightarrow> BusOp list" where
  "newBusOps s s' = drop (length (busLog s)) (busLog s')"

text \<open>
  How a run of the waiting loop from iteration \<open>i\<close> can end with result \<open>r\<close>: at some
  iteration \<open>k\<close>, before which neither the flag was seen nor the timeout had passed,
  either the flag is seen (\<open>r\<close> true) or the timeout has passed (\<open>r\<close> false).
\<close>

definition waitOutcome ::
  "(nat \<Rightarrow> bool) \<Rightarrow> (nat \<Rightarrow> int) \<Rightarrow> int \<Rightarrow> int \<Rightarrow> nat \<Rightarrow> bool \<Rightarrow> bool" where
  "waitOutcome flag clock startTimePoint maxTimeout i r \<longleftrightarrow>
     (\<exists>k\<ge>i. (\<forall>j. i \<le> j \<and> j < k \<longrightarrow> \<not> flag j \<and> \<not> clock j - startTimePoint > maxTimeout) \<and>
            (if r then flag k else \<not> flag k \<and> clock k - startTimePoint > maxTimeout))"


text \<open>
  Running every step of a list in order, each on the state that the previous one has
  left and whatever the results so far; the results are collected.
\<close>

fun runEveryStep :: "(Elmo \<Rightarrow> bool \<times> Elmo) list \<Rightarrow> Elmo \<Rightarrow> bool list \<times> Elmo" where
  "runEveryStep [] s = ([], s)"
| "runEveryStep (step # steps) s =
     (let (r, s1) = step s; (rs, s2) = runEveryStep steps s1 in (r # rs, s2))"

text \<open>
  The best-effort sequence that section 4.2 of the specification describes: every step
  is run, the overall success is the conjunction of the results of all steps, and a
  ConfigurationError is recorded when it is false.
\<close>

definition bestEffort :: "(Elmo \<Rightarrow> bool \<times> Elmo) list \<Rightarrow> Elmo \<Rightarrow> bool \<times> Elmo" where
  "bestEffort steps s =
     (let (rs, s1) = runEveryStep steps s
      in if list_all id rs then (True, s1)
         else (False, addErrorToReading ConfigurationError s1))"

text \<open>
  The steps of section 4.2 in its order, each with the call that lines 132-163 make for
  it: the read of the rated current when it is unset, the state change to
  ReadyToSwitchOn, the PDO mapping, the mode of operation, the PDO sizes (which has no
  result and counts as a success), and the three writes of rated current, rated torque
  and maximum current.
\<close>

definition readRatedCurrentIfUnset :: "Env \<Rightarrow> Elmo \<Rightarrow> bool \<times> Elmo" where
  "readRatedCurrentIfUnset env s0 =
     (if motorRatedCurrentA (configuration s0) = 0
      then (let ((r, motorRatedCurrent), s) =
                  sendSdoRead env OD_INDEX_MOTOR_RATED_CURRENT 0 False s0;
                c = (configuration s)\<lparr>motorRatedCurrentA :=
                       real (unat motorRatedCurrent) / 1000\<rparr>
            in (r, s\<lparr>configuration := c, reading := configureReading c (reading s)\<rparr>))
      else (True, s0))"

definition preopSteps :: "Env \<Rightarrow> (Elmo \<Rightarrow> bool \<times> Elmo) list" where
  "preopSteps env =
     [readRatedCurrentIfUnset env,
      setDriveStateViaSdo env ReadyToSwitchOn,
      (\<lambda>s. mapPdos env (rxPdoTypeEnum (configuration s)) (txPdoTypeEnum (configuration s)) s),
      (\<lambda>s. sdoVerifyWrite env OD_INDEX_MODES_OF_OPERATION 0 False
             (Int8 (modeOfOperationEnum (configuration s))) s),
      (\<lambda>s. (True, autoConfigurePdoSizes env s)),
      (\<lambda>s. sdoVerifyWrite env OD_INDEX_MOTOR_RATED_CURRENT 0 False
             (UInt32 (word_of_int (c_round (1000 * motorRatedCurrentA (configuration s))))) s),
      (\<lambda>s. sdoVerifyWrite env OD_INDEX_MOTOR_RATED_TORQUE 0 False
             (UInt32 (word_of_int (c_round (1000 * motorRatedCurrentA (configuration s))))) s),
      (\<lambda>s. sdoVerifyWrite env OD_INDEX_MAX_CURRENT 0 False
             (UInt16 (word_of_int \<lfloor>1000 * maxCurrentA (configuration s)\<rfloor>)) s)]"

text \<open>
  What a call leaves alone: the two members that guard the engine; the error log, up to
  new entries other than ConfigurationError; and, for two runs side by side, the calls
  made on the bus and the configuration.
\<close>

definition engineFlagsKept :: "Elmo \<Rightarrow> Elmo \<Rightarrow> bool" where
  "engineFlagsKept s s' \<longleftrightarrow>
     hasRead s' = hasRead s \<and> conductStateChange s' = conductStateChange s"

definition addsNoConfigurationError :: "Elmo \<Rightarrow> Elmo \<Rightarrow> bool" where
  "addsNoConfigurationError s s' \<longleftrightarrow>
     (\<exists>es. errors (reading s') = errors (reading s) @ es \<and> ConfigurationError \<notin> set es)"

definition mailboxStep :: "Elmo \<Rightarrow> Elmo \<Rightarrow> bool" where
  "mailboxStep s s' \<longleftrightarrow> engineFlagsKept s s' \<and> addsNoConfigurationError s s'"

definition sameBusInputs :: "Elmo \<Rightarrow> Elmo \<Rightarrow> bool" where
  "sameBusInputs s s' \<longleftrightarrow> busLog s = busLog s' \<and> configuration s = configuration s'"

text \<open>The guard under which \<open>updateWrite\<close> invokes the engine (line 42).\<close>

definition engineEnabled :: "Elmo \<Rightarrow> bool" where
  "engineEnabled s \<longleftrightarrow> conductStateChange s \<and> hasRead s"

section \<open>A sample drive for concrete evaluation\<close>

text \<open>
  Controlword patterns and statusword decoding of the device profile, a bus on which
  every mailbox call succeeds and every read returns the statusword of a fault, and a
  drive before any request.
\<close>

definition exampleSetStateTransition :: "StateTransition \<Rightarrow> Controlword \<Rightarrow> Controlword" where
  "exampleSetStateTransition t c =
     (case t of
        T_2 \<Rightarrow> 0x0006 | T_6 \<Rightarrow> 0x0006 | T_8 \<Rightarrow> 0x0006
      | T_3 \<Rightarrow> 0x0007 | T_5 \<Rightarrow> 0x0007
      | T_4 \<Rightarrow> 0x000F
      | T_11 \<Rightarrow> 0x0002
      | T_15 \<Rightarrow> 0x0080
      | _ \<Rightarrow> 0x0000)"

definition exampleGetDriveState :: "Statusword \<Rightarrow> DriveState" where
  "exampleGetDriveState sw =
     (if and sw 0x004F = 0x0040 then SwitchOnDisabled
      else if and sw 0x006F = 0x0021 then ReadyToSwitchOn
      else if and sw 0x006F = 0x0023 then SwitchedOn
      else if and sw 0x006F = 0x0027 then OperationEnabled
      else if and sw 0x006F = 0x0007 then QuickStopActive
      else if and sw 0x004F = 0x0008 then Fault
      else if and sw 0x004F = 0x0000 then NotReadyToSwitchOn
      else UnknownState)"

definition exampleEnv :: Env where
  "exampleEnv =
     \<lparr>sdoSuccess = (\<lambda>n. True),
      sdoReadValue = (\<lambda>n. 0x0008),
      txPdoStandard = (\<lambda>n. TxPdoStandardFrame 0 0 0 0x0008 0 0 0),
      txPdoCST = (\<lambda>n. TxPdoCSTFrame 0 0 0x0008 0),
      hardwarePdoSizes = (\<lambda>n. (19, 22)),
      defaultControlword = 0,
      setStateTransition = exampleSetStateTransition,
      getDriveState = exampleGetDriveState,
      doUnitConversion = (\<lambda>c command. command)\<rparr>"

text \<open>The environment in which the bus call number \<open>k\<close>, and only it, fails.\<close>

definition failingAt :: "nat \<Rightarrow> Env \<Rightarrow> Env" where
  "failingAt k env = env\<lparr>sdoSuccess := (\<lambda>n. n \<noteq> k)\<rparr>"

definition exampleConfiguration :: Configuration where
  "exampleConfiguration =
     \<lparr>motorRatedCurrentA = 2,
      maxCurrentA = 3,
      rxPdoTypeEnum = RxPdoStandard,
      txPdoTypeEnum = TxPdoStandard,
      modeOfOperationEnum = ModeOfOperation 10,
      useMultipleModeOfOperations = False,
      driveStateChangeMinTimeout = 1000,
      driveStateChangeMaxTimeout = 2000,
      minNumberOfSuccessfulTargetStateReadings = 3\<rparr>"

definition exampleElmo :: Elmo where
  "exampleElmo =
     \<lparr>configuration = exampleConfiguration,
      reading = \<lparr>actualPosition = 0, digitalInputs = 0, actualVelocity = 0,
                 statusword = 0x0040, analogInput = 0, actualCurrent = 0, busVoltage = 0,
                 errors = [], faults = [], readingConfiguration = None\<rparr>,
      stagedCommand = \<lparr>targetPositionRaw = 0, targetVelocityRaw = 0, targetTorqueRaw = 0,
                       maxTorqueRaw = 0, torqueOffsetRaw = 0,
                       getModeOfOperation = ModeOfOperation 10\<rparr>,
      controlword = 0,
      modeOfOperation = ModeOfOperation 10,
      allowModeChange = False,
      currentRxPdoTypeEnum = RxPdoStandard,
      currentTxPdoTypeEnum = TxPdoStandard,
      pdoInfo = \<lparr>rxPdoSize = 0, txPdoSize = 0\<rparr>,
      hasRead = False,
      conductStateChange = False,
      stateChangeSuccessful = False,
      targetDriveState = SwitchOnDisabled,
      numberOfSuccessfulTargetStateReadings = 0,
      driveStateChangeTimePoint = 0,
      busLog = []\<rparr>"

text \<open>The sample drive after a request for OperationEnabled at time 0.\<close>

definition pendingElmo :: Elmo where
  "pendingElmo = requestStateChange OperationEnabled 0 exampleElmo"

text \<open>The sample bus when the drive reports OperationEnabled in every inbound record.\<close>

definition enabledEnv :: Env where
  "enabledEnv = exampleEnv\<lparr>txPdoStandard := (\<lambda>n. TxPdoStandardFrame 0 0 0 0x0027 0 0 0)\<rparr>"

text \<open>A clock that advances one millisecond per iteration of the waiting loop.\<close>

definition exampleClock :: "nat \<Rightarrow> int" where
  "exampleClock i = 1000 * int i"

definition neverSet :: "nat \<Rightarrow> bool" where
  "neverSet i = False"

section \<open>Transition selection (C1)\<close>

lemmas example_defs = exampleEnv_def exampleElmo_def exampleConfiguration_def
  exampleSetStateTransition_def exampleGetDriveState_def failingAt_def
  exampleClock_def neverSet_def

text \<open>
  C1. For a requested state among the five that can be requested and a current state
  among the six defined ones, different from each other, the table holds one transition
  and \<open>getNextStateTransitionControlword\<close> returns the cleared controlword with exactly
  that transition applied, and the error log of the reading gains nothing. For a
  requested state equal to the current one it returns the cleared controlword, no
  transition applied, and the error log of the reading gains exactly one
  PdoStateTransitionError, the rest of the drive unchanged; so it is for an undefined
  current state, whatever is requested.
\<close>

theorem getNextStateTransitionControlword_table:
  "(\<forall>requested \<in> set requestableDriveStates. \<forall>current \<in> set definedDriveStates.
      requested \<noteq> current \<longrightarrow>
        (\<exists>t. map_of standardTransitionTable (requested, current) = Some t \<and>
             getNextStateTransitionControlword env requested current s
               = (setStateTransition env t (setAllFalse (defaultControlword env)), s)) \<and>
        newErrors s (snd (getNextStateTransitionControlword env requested current s)) = [])
   \<and> (\<forall>requested \<in> set requestableDriveStates.
        getNextStateTransitionControlword env requested requested s
          = (0, addErrorToReading PdoStateTransitionError s) \<and>
        getNextStateTransitionControlword env requested requested s
          = (0, s\<lparr>reading := (reading s)
                    \<lparr>errors := errors (reading s) @ [PdoStateTransitionError]\<rparr>\<rparr>) \<and>
        newErrors s (snd (getNextStateTransitionControlword env requested requested s))
          = [PdoStateTransitionError])
   \<and> (\<forall>requested. \<forall>current \<in> {NotReadyToSwitchOn, UnknownState}.
        getNextStateTransitionControlword env requested current s
          = (0, addErrorToReading PdoStateTransitionError s) \<and>
        getNextStateTransitionControlword env requested current s
          = (0, s\<lparr>reading := (reading s)
                    \<lparr>errors := errors (reading s) @ [PdoStateTransitionError]\<rparr>\<rparr>) \<and>
        newErrors s (snd (getNextStateTransitionControlword env requested current s))
          = [PdoStateTransitionError])"
proof (intro conjI ballI allI)
  fix requested current
  assume "requested \<in> set requestableDriveStates" "current \<in> set definedDriveStates"
  then show "requested \<noteq> current \<longrightarrow>
        (\<exists>t. map_of standardTransitionTable (requested, current) = Some t \<and>
             getNextStateTransitionControlword env requested current s
               = (setStateTransition env t (setAllFalse (defaultControlword env)), s)) \<and>
        newErrors s (snd (getNextStateTransitionControlword env requested current s)) = []"
    by (auto simp: requestableDriveStates_def definedDriveStates_def
        standardTransitionTable_def getNextStateTransitionControlword_def newErrors_def)
next
  fix requested
  assume r: "requested \<in> set requestableDriveStates"
  then show "getNextStateTransitionControlword env requested requested s
          = (0, addErrorToReading PdoStateTransitionError s)"
    by (auto simp: requestableDriveStates_def getNextStateTransitionControlword_def
        setAllFalse_def)
  from r show "getNextStateTransitionControlword env requested requested s
          = (0, s\<lparr>reading := (reading s)
                    \<lparr>errors := errors (reading s) @ [PdoStateTransitionError]\<rparr>\<rparr>)"
    by (auto simp: requestableDriveStates_def getNextStateTransitionControlword_def
        setAllFalse_def addErrorToReading_def addError_def)
  from r show "newErrors s (snd (getNextStateTransitionControlword env requested requested s))
          = [PdoStateTransitionError]"
    by (auto simp: requestableDriveStates_def getNextStateTransitionControlword_def
        setAllFalse_def addErrorToReading_def addError_def newErrors_def)
next
  fix requested current
  assume c: "current \<in> {NotReadyToSwitchOn, UnknownState}"
  then show "getNextStateTransitionControlword env requested current s
          = (0, addErrorToReading PdoStateTransitionError s)"
    by (cases requested) (auto simp: getNextStateTransitionControlword_def setAllFalse_def)
  from c show "getNextStateTransitionControlword env requested current s
          = (0, s\<lparr>reading := (reading s)
                    \<lparr>errors := errors (reading s) @ [PdoStateTransitionError]\<rparr>\<rparr>)"
    by (cases requested)
       (auto simp: getNextStateTransitionControlword_def setAllFalse_def
          addErrorToReading_def addError_def)
  from c show "newErrors s (snd (getNextStateTransitionControlword env requested current s))
          = [PdoStateTransitionError]"
    by (cases requested)
       (auto simp: getNextStateTransitionControlword_def setAllFalse_def
          addErrorToReading_def addError_def newErrors_def)
qed

theorem getNextStateTransitionControlword_table_witness:
  "OperationEnabled \<in> set requestableDriveStates \<and> Fault \<in> set definedDriveStates \<and>
   ReadyToSwitchOn \<in> set requestableDriveStates \<and> SwitchOnDisabled \<in> set definedDriveStates \<and>
   getNextStateTransitionControlword exampleEnv OperationEnabled Fault exampleElmo
     = (0x0080, exampleElmo) \<and>
   getNextStateTransitionControlword exampleEnv ReadyToSwitchOn SwitchOnDisabled exampleElmo
     = (0x0006, exampleElmo) \<and>
   errors (reading exampleElmo) = [] \<and>
   fst (getNextStateTransitionControlword exampleEnv ReadyToSwitchOn ReadyToSwitchOn
     exampleElmo) = 0 \<and>
   errors (reading (snd (getNextStateTransitionControlword exampleEnv ReadyToSwitchOn
     ReadyToSwitchOn exampleElmo))) = [PdoStateTransitionError] \<and>
   fst (getNextStateTransitionControlword exampleEnv ReadyToSwitchOn UnknownState
     exampleElmo) = 0 \<and>
   errors (reading (snd (getNextStateTransitionControlword exampleEnv ReadyToSwitchOn
     UnknownState exampleElmo))) = [PdoStateTransitionError]"
proof -
  note table = getNextStateTransitionControlword_table [of exampleEnv exampleElmo]
  have sample: "errors (reading exampleElmo) = []"
    "setStateTransition exampleEnv T_15 0 = 0x0080"
    "setStateTransition exampleEnv T_2 0 = 0x0006"
    by (simp_all add: example_defs)
  have m: "OperationEnabled \<in> set requestableDriveStates" "Fault \<in> set definedDriveStates"
    "ReadyToSwitchOn \<in> set requestableDriveStates" "SwitchOnDisabled \<in> set definedDriveStates"
    by (simp_all add: requestableDriveStates_def definedDriveStates_def)
  from table m have off1:
    "\<exists>t. map_of standardTransitionTable (OperationEnabled, Fault) = Some t \<and>
      getNextStateTransitionControlword exampleEnv OperationEnabled Fault exampleElmo
        = (setStateTransition exampleEnv t (setAllFalse (defaultControlword exampleEnv)),
           exampleElmo)"
    by blast
  from table m have off2:
    "\<exists>t. map_of standardTransitionTable (ReadyToSwitchOn, SwitchOnDisabled) = Some t \<and>
      getNextStateTransitionControlword exampleEnv ReadyToSwitchOn SwitchOnDisabled exampleElmo
        = (setStateTransition exampleEnv t (setAllFalse (defaultControlword exampleEnv)),
           exampleElmo)"
    by blast
  from table m have diag:
    "getNextStateTransitionControlword exampleEnv ReadyToSwitchOn ReadyToSwitchOn exampleElmo
       = (0, addErrorToReading PdoStateTransitionError exampleElmo)"
    "newErrors exampleElmo (snd (getNextStateTransitionControlword exampleEnv ReadyToSwitchOn
       ReadyToSwitchOn exampleElmo)) = [PdoStateTransitionError]"
    by blast+
  from table have undef:
    "getNextStateTransitionControlword exampleEnv ReadyToSwitchOn UnknownState exampleElmo
       = (0, addErrorToReading PdoStateTransitionError exampleElmo)"
    "newErrors exampleElmo (snd (getNextStateTransitionControlword exampleEnv ReadyToSwitchOn
       UnknownState exampleElmo)) = [PdoStateTransitionError]"
    by blast+
  from off1 off2 sample have off:
    "getNextStateTransitionControlword exampleEnv OperationEnabled Fault exampleElmo
       = (0x0080, exampleElmo)"
    "getNextStateTransitionControlword exampleEnv ReadyToSwitchOn SwitchOnDisabled exampleElmo
       = (0x0006, exampleElmo)"
    by (simp_all add: standardTransitionTable_def setAllFalse_def)
  from diag(1) undef(1) have cw:
    "fst (getNextStateTransitionControlword exampleEnv ReadyToSwitchOn ReadyToSwitchOn
       exampleElmo) = 0"
    "fst (getNextStateTransitionControlword exampleEnv ReadyToSwitchOn UnknownState
       exampleElmo) = 0"
    by simp_all
  from diag(2) undef(2) sample(1) have log:
    "errors (reading (snd (getNextStateTransitionControlword exampleEnv ReadyToSwitchOn
       ReadyToSwitchOn exampleElmo))) = [PdoStateTransitionError]"
    "errors (reading (snd (getNextStateTransitionControlword exampleEnv ReadyToSwitchOn
       UnknownState exampleElmo))) = [PdoStateTransitionError]"
    by (simp_all add: newErrors_def)
  from m off sample(1) cw log show ?thesis by simp
qed

section \<open>The blocking state change (C2)\<close>

lemmas sdo_defs = setDriveStateViaSdo_def getStatuswordViaSdo_def sendSdoReadUInt16_def
  sendSdoRead_def
  stateTransitionViaSdo_def setControlwordViaSdo_def sendSdoWrite_def addErrorToReading_def

text \<open>
  C2 (as amended). In \<open>setDriveStateViaSdo\<close> the calls made on the bus do not depend on
  which mailbox calls fail: the status read and every transition write of the chain are
  issued whatever the outcome of the earlier ones, so a failed intermediate write does
  not abort the chain. If any mailbox call of the run (call number \<open>n\<close>) fails, the
  result is false.
\<close>

theorem setDriveStateViaSdo_chain_not_aborted:
  "busLog (snd (setDriveStateViaSdo (env\<lparr>sdoSuccess := outcome\<rparr>) driveState s))
     = busLog (snd (setDriveStateViaSdo env driveState s))
   \<and> (length (busLog s) \<le> n \<and>
      n < length (busLog (snd (setDriveStateViaSdo env driveState s))) \<and>
      \<not> sdoSuccess env n
      \<longrightarrow> \<not> fst (setDriveStateViaSdo env driveState s))"
proof
  show "busLog (snd (setDriveStateViaSdo (env\<lparr>sdoSuccess := outcome\<rparr>) driveState s))
     = busLog (snd (setDriveStateViaSdo env driveState s))"
    by (cases driveState;
        cases "getDriveState env (ucast (sdoReadValue env (length (busLog s))))")
      (simp_all add: sdo_defs Let_def)
next
  show "length (busLog s) \<le> n \<and>
      n < length (busLog (snd (setDriveStateViaSdo env driveState s))) \<and>
      \<not> sdoSuccess env n
      \<longrightarrow> \<not> fst (setDriveStateViaSdo env driveState s)"
    by (cases driveState;
        cases "getDriveState env (ucast (sdoReadValue env (length (busLog s))))")
      (auto simp: sdo_defs Let_def less_Suc_eq)
qed

theorem setDriveStateViaSdo_chain_not_aborted_witness:
  "length (busLog exampleElmo) \<le> 2 \<and>
   2 < length (busLog (snd (setDriveStateViaSdo (failingAt 2 exampleEnv) OperationEnabled exampleElmo))) \<and>
   \<not> sdoSuccess (failingAt 2 exampleEnv) 2 \<and>
   \<not> fst (setDriveStateViaSdo (failingAt 2 exampleEnv) OperationEnabled exampleElmo) \<and>
   busLog (snd (setDriveStateViaSdo (failingAt 2 exampleEnv) OperationEnabled exampleElmo))
     = busLog (snd (setDriveStateViaSdo exampleEnv OperationEnabled exampleElmo))"
  using setDriveStateViaSdo_chain_not_aborted
    [where env = exampleEnv and outcome = "\<lambda>n. n \<noteq> 2" and driveState = OperationEnabled
       and s = exampleElmo and n = 2]
    setDriveStateViaSdo_chain_not_aborted
    [where env = "failingAt 2 exampleEnv" and outcome = "\<lambda>n. n \<noteq> 2"
       and driveState = OperationEnabled and s = exampleElmo and n = 2]
  by (simp add: example_defs sdo_defs)

text \<open>
  C2 as stated fails: from Fault to OperationEnabled the first transition write (the
  fault reset, bus call number 1) fails, and the three remaining writes of the chain are
  issued all the same.
\<close>

theorem setDriveStateViaSdo_abort_counterexample:
  "getDriveState exampleEnv (ucast (sdoReadValue exampleEnv 0)) = Fault \<and>
   \<not> sdoSuccess (failingAt 1 exampleEnv) 1 \<and>
   \<not> fst (setDriveStateViaSdo (failingAt 1 exampleEnv) OperationEnabled exampleElmo) \<and>
   busLog (snd (setDriveStateViaSdo (failingAt 1 exampleEnv) OperationEnabled exampleElmo))
     = [SdoRead OD_INDEX_STATUSWORD 0 False,
        SdoWrite OD_INDEX_CONTROLWORD 0 False (UInt16 0x0080),
        SdoWrite OD_INDEX_CONTROLWORD 0 False (UInt16 0x0006),
        SdoWrite OD_INDEX_CONTROLWORD 0 False (UInt16 0x0007),
        SdoWrite OD_INDEX_CONTROLWORD 0 False (UInt16 0x000F)]"
  by (simp add: example_defs sdo_defs)

section \<open>PDO mapping and PDO types (C6, C9)\<close>

lemmas map_defs = mapPdos_def configureRxPdo_def configureTxPdo_def sdoVerifyWrite_def
  addErrorToReading_def addError_def newErrors_def newBusOps_def

text \<open>
  C6. When the rx type given to \<open>mapPdos\<close> is NA or not implemented, the call returns
  false, records a PdoMappingError and makes no mailbox call on the rx assignment
  object; when the tx type is NA or not implemented, it returns false, records a
  TxPdoMappingError and makes no mailbox call on the tx assignment object.
\<close>

theorem mapPdos_unassigned_type:
  "(rxType \<in> {RxPdoTypeEnum_NA, RxPdoUnimplemented} \<longrightarrow>
      \<not> fst (mapPdos env rxType txType s) \<and>
      PdoMappingError \<in> set (newErrors s (snd (mapPdos env rxType txType s))) \<and>
      (\<forall>op \<in> set (newBusOps s (snd (mapPdos env rxType txType s))).
         opIndex op \<noteq> Some OD_INDEX_RX_PDO_ASSIGNMENT))
   \<and> (txType \<in> {TxPdoTypeEnum_NA, TxPdoUnimplemented} \<longrightarrow>
      \<not> fst (mapPdos env rxType txType s) \<and>
      TxPdoMappingError \<in> set (newErrors s (snd (mapPdos env rxType txType s))) \<and>
      (\<forall>op \<in> set (newBusOps s (snd (mapPdos env rxType txType s))).
         opIndex op \<noteq> Some OD_INDEX_TX_PDO_ASSIGNMENT))"
proof (rule conjI; rule impI)
  assume "rxType \<in> {RxPdoTypeEnum_NA, RxPdoUnimplemented}"
  then consider "rxType = RxPdoTypeEnum_NA" | "rxType = RxPdoUnimplemented" by blast
  then show "\<not> fst (mapPdos env rxType txType s) \<and>
      PdoMappingError \<in> set (newErrors s (snd (mapPdos env rxType txType s))) \<and>
      (\<forall>op \<in> set (newBusOps s (snd (mapPdos env rxType txType s))).
         opIndex op \<noteq> Some OD_INDEX_RX_PDO_ASSIGNMENT)"
  proof cases
    case 1
    then show ?thesis by (cases txType) (simp_all add: map_defs Let_def)
  next
    case 2
    then show ?thesis by (cases txType) (simp_all add: map_defs Let_def)
  qed
next
  assume "txType \<in> {TxPdoTypeEnum_NA, TxPdoUnimplemented}"
  then consider "txType = TxPdoTypeEnum_NA" | "txType = TxPdoUnimplemented" by blast
  then show "\<not> fst (mapPdos env rxType txType s) \<and>
      TxPdoMappingError \<in> set (newErrors s (snd (mapPdos env rxType txType s))) \<and>
      (\<forall>op \<in> set (newBusOps s (snd (mapPdos env rxType txType s))).
         opIndex op \<noteq> Some OD_INDEX_TX_PDO_ASSIGNMENT)"
  proof cases
    case 1
    then show ?thesis by (cases rxType) (simp_all add: map_defs Let_def)
  next
    case 2
    then show ?thesis by (cases rxType) (simp_all add: map_defs Let_def)
  qed
qed

theorem mapPdos_unassigned_type_witness:
  "RxPdoTypeEnum_NA \<in> {RxPdoTypeEnum_NA, RxPdoUnimplemented} \<and>
   \<not> fst (mapPdos exampleEnv RxPdoTypeEnum_NA TxPdoCST exampleElmo) \<and>
   newErrors exampleElmo (snd (mapPdos exampleEnv RxPdoTypeEnum_NA TxPdoCST exampleElmo))
     = [PdoMappingError] \<and>
   newBusOps exampleElmo (snd (mapPdos exampleEnv RxPdoTypeEnum_NA TxPdoCST exampleElmo))
     = [SdoVerifyWrite OD_INDEX_TX_PDO_ASSIGNMENT 0 False (UInt8 0),
        SdoVerifyWrite OD_INDEX_TX_PDO_ASSIGNMENT 1 False (UInt16 0x1a02),
        SdoVerifyWrite OD_INDEX_TX_PDO_ASSIGNMENT 2 False (UInt16 0x1a11),
        SdoVerifyWrite OD_INDEX_TX_PDO_ASSIGNMENT 0 False (UInt8 2)] \<and>
   TxPdoTypeEnum_NA \<in> {TxPdoTypeEnum_NA, TxPdoUnimplemented} \<and>
   \<not> fst (mapPdos exampleEnv RxPdoCST TxPdoTypeEnum_NA exampleElmo) \<and>
   newErrors exampleElmo (snd (mapPdos exampleEnv RxPdoCST TxPdoTypeEnum_NA exampleElmo))
     = [TxPdoMappingError]"
  using mapPdos_unassigned_type [of RxPdoTypeEnum_NA exampleEnv TxPdoCST exampleElmo]
    mapPdos_unassigned_type [of RxPdoCST exampleEnv TxPdoTypeEnum_NA exampleElmo]
  by (simp add: example_defs map_defs)

text \<open>
  C9 (what the code does). \<open>configureTxPdo\<close> with the NA type returns false and records
  an RxPdoTypeError, the same error kind that \<open>configureRxPdo\<close> records for the NA rx
  type; no TxPdoTypeError is recorded.
\<close>

theorem configureTxPdo_NA_records_RxPdoTypeError:
  "fst (configureTxPdo TxPdoTypeEnum_NA s) = False \<and>
   newErrors s (snd (configureTxPdo TxPdoTypeEnum_NA s)) = [RxPdoTypeError] \<and>
   fst (configureRxPdo RxPdoTypeEnum_NA s) = False \<and>
   newErrors s (snd (configureRxPdo RxPdoTypeEnum_NA s)) = [RxPdoTypeError]"
  by (simp add: map_defs)

section \<open>The cyclic halves (C7, C8)\<close>

text \<open>
  C7. When the mode of operation is NA, \<open>updateWrite\<close> changes nothing but the error
  log of the reading, to which it appends one ModeOfOperationError: no record goes to
  the bus and the members of the state-change engine keep their values.
\<close>

theorem updateWrite_mode_not_set:
  assumes "modeOfOperation s = ModeOfOperationEnum_NA"
  shows "updateWrite env now1 now2 s
           = s\<lparr>reading := (reading s)\<lparr>errors := errors (reading s) @ [ModeOfOperationError]\<rparr>\<rparr>
         \<and> newBusOps s (updateWrite env now1 now2 s) = []
         \<and> newErrors s (updateWrite env now1 now2 s) = [ModeOfOperationError]"
  using assms by (simp add: updateWrite_def addError_def newBusOps_def newErrors_def)

theorem updateWrite_mode_not_set_witness:
  "modeOfOperation (exampleElmo\<lparr>modeOfOperation := ModeOfOperationEnum_NA,
       conductStateChange := True, hasRead := True\<rparr>) = ModeOfOperationEnum_NA \<and>
   newBusOps (exampleElmo\<lparr>modeOfOperation := ModeOfOperationEnum_NA,
       conductStateChange := True, hasRead := True\<rparr>)
     (updateWrite exampleEnv 5000 5001 (exampleElmo\<lparr>modeOfOperation := ModeOfOperationEnum_NA,
       conductStateChange := True, hasRead := True\<rparr>)) = [] \<and>
   hasRead (updateWrite exampleEnv 5000 5001 (exampleElmo\<lparr>modeOfOperation := ModeOfOperationEnum_NA,
       conductStateChange := True, hasRead := True\<rparr>)) \<and>
   errors (reading (updateWrite exampleEnv 5000 5001
     (exampleElmo\<lparr>modeOfOperation := ModeOfOperationEnum_NA,
       conductStateChange := True, hasRead := True\<rparr>))) = [ModeOfOperationError]"
  using updateWrite_mode_not_set [of "exampleElmo\<lparr>modeOfOperation := ModeOfOperationEnum_NA,
       conductStateChange := True, hasRead := True\<rparr>" exampleEnv 5000 5001]
  by (simp add: example_defs newBusOps_def)

lemmas read_defs = updateRead_def sendSdoReadUInt16_def sendSdoRead_def addError_def
  addFault_def
  newErrors_def newBusOps_def Let_def

text \<open>
  C8. When the state decoded by \<open>updateRead\<close> is Fault, the call makes one mailbox read
  of the error code, the last call on the bus: if it succeeds, the value read is
  appended to the faults of the reading and no ErrorReadingError is recorded; if it
  fails, the faults are unchanged and an ErrorReadingError is recorded. When the decoded
  state is not Fault, there is no such read, no new fault and no ErrorReadingError.
\<close>

theorem updateRead_fault_code:
  "(let s' = updateRead env s;
        faultReads = filter (\<lambda>op. opIndex op = Some OD_INDEX_ERROR_CODE) (newBusOps s s')
    in
    (getDriveState env (statusword (reading s')) = Fault \<longrightarrow>
       faultReads = [SdoRead OD_INDEX_ERROR_CODE 0 False] \<and>
       last (busLog s') = SdoRead OD_INDEX_ERROR_CODE 0 False \<and>
       (if sdoSuccess env (length (busLog s') - 1)
        then faults (reading s')
               = faults (reading s) @ [ucast (sdoReadValue env (length (busLog s') - 1))] \<and>
             ErrorReadingError \<notin> set (newErrors s s')
        else faults (reading s') = faults (reading s) \<and>
             ErrorReadingError \<in> set (newErrors s s')))
    \<and> (getDriveState env (statusword (reading s')) \<noteq> Fault \<longrightarrow>
       faultReads = [] \<and> faults (reading s') = faults (reading s) \<and>
       ErrorReadingError \<notin> set (newErrors s s')))"
  by (cases "currentTxPdoTypeEnum s") (simp_all add: read_defs)

theorem updateRead_fault_code_witness:
  "getDriveState exampleEnv (statusword (reading (updateRead exampleEnv exampleElmo))) = Fault \<and>
   sdoSuccess exampleEnv 1 \<and>
   busLog (updateRead exampleEnv exampleElmo)
     = [ReadTxPdo TxPdoStandard, SdoRead OD_INDEX_ERROR_CODE 0 False] \<and>
   faults (reading (updateRead exampleEnv exampleElmo)) = [0x0008] \<and>
   errors (reading (updateRead exampleEnv exampleElmo)) = [] \<and>
   \<not> sdoSuccess (failingAt 1 exampleEnv) 1 \<and>
   faults (reading (updateRead (failingAt 1 exampleEnv) exampleElmo)) = [] \<and>
   errors (reading (updateRead (failingAt 1 exampleEnv) exampleElmo)) = [ErrorReadingError]"
  using updateRead_fault_code [of exampleEnv exampleElmo]
    updateRead_fault_code [of "failingAt 1 exampleEnv" exampleElmo]
  by (simp add: example_defs read_defs)

section \<open>Requesting a state change over process data (C10)\<close>

lemma waitForStateChange_outcome:
  assumes "waitForStateChange flag clock startTimePoint maxTimeout i = Some r"
  shows "waitOutcome flag clock startTimePoint maxTimeout i r"
proof (rule waitForStateChange.raw_induct[where P = waitOutcome, OF _ assms])
  fix w flag clock start mx i r
  assume IH: "\<And>flag clock start mx i r.
      w flag clock start mx i = Some r \<Longrightarrow> waitOutcome flag clock start mx i r"
    and eq: "(if flag i then Some True
      else if clock i - start > mx then Some False
      else w flag clock start mx (Suc i)) = Some r"
  show "waitOutcome flag clock start mx i r"
  proof (cases "flag i \<or> clock i - start > mx")
    case True
    with eq show ?thesis
      unfolding waitOutcome_def by (intro exI[of _ i]) (auto split: if_splits)
  next
    case False
    with eq have "w flag clock start mx (Suc i) = Some r" by simp
    from IH[OF this] obtain k where k: "k \<ge> Suc i"
      "\<forall>j. Suc i \<le> j \<and> j < k \<longrightarrow> \<not> flag j \<and> \<not> clock j - start > mx"
      "if r then flag k else \<not> flag k \<and> clock k - start > mx"
      unfolding waitOutcome_def by blast
    have "\<not> flag j \<and> \<not> clock j - start > mx" if "i \<le> j \<and> j < k" for j
    proof -
      from that consider "j = i" | "Suc i \<le> j \<and> j < k" by linarith
      then show ?thesis using False k(2) by cases auto
    qed
    with k show ?thesis unfolding waitOutcome_def by (intro exI[of _ k]) auto
  qed
qed

lemma waitForStateChange_returns:
  assumes "flag k \<or> clock k - startTimePoint > maxTimeout" "i \<le> k"
  shows "\<exists>r. waitForStateChange flag clock startTimePoint maxTimeout i = Some r"
  using assms
proof (induction "k - i" arbitrary: i)
  case 0
  then have "i = k" by simp
  with 0 show ?case by (subst waitForStateChange.simps) auto
next
  case (Suc n)
  then have "n = k - Suc i" "Suc i \<le> k" by auto
  from Suc(1)[OF this(1) Suc(3) this(2)] show ?case
    by (subst waitForStateChange.simps) auto
qed

lemma setDriveStateViaPdo_unfold:
  "setDriveStateViaPdo driveState waitForState now1 now2 flag clock s =
     (if \<not> waitForState then Some (True, requestStateChange driveState now1 s)
      else map_option (\<lambda>success. (success, requestStateChange driveState now1 s))
             (waitForStateChange (\<lambda>i. 0 < i \<and> flag i) clock now2
                (driveStateChangeMaxTimeout (configuration s)) 0))"
proof -
  have fl: "(\<lambda>i. if i = 0 then stateChangeSuccessful (requestStateChange driveState now1 s)
                 else flag i) = (\<lambda>i. 0 < i \<and> flag i)"
    by (auto simp: requestStateChange_def fun_eq_iff)
  have cf: "configuration (requestStateChange driveState now1 s) = configuration s"
    by (simp add: requestStateChange_def)
  show ?thesis
    unfolding setDriveStateViaPdo_def Let_def fl cf ..
qed

text \<open>
  C10. Without waiting, \<open>setDriveStateViaPdo\<close> returns true for every target state,
  leaving the success flag cleared, the pending flag set, the target stored, the
  fresh-reading flag cleared and the time point of the last change reset. A call that
  returns false was waiting, and an iteration of its loop read a clock beyond the
  maximum timeout without the success flag having been seen. A waiting call returns
  as soon as the clock passes the timeout.
\<close>

theorem setDriveStateViaPdo_result:
  "setDriveStateViaPdo driveState False now1 now2 flag clock s
     = Some (True, s\<lparr>stateChangeSuccessful := False,
                     conductStateChange := True,
                     targetDriveState := driveState,
                     hasRead := False,
                     driveStateChangeTimePoint := now1\<rparr>)
   \<and> (setDriveStateViaPdo driveState waitForState now1 now2 flag clock s = Some (False, s')
      \<longrightarrow> waitForState \<and>
          (\<exists>k. clock k - now2 > driveStateChangeMaxTimeout (configuration s) \<and>
               (\<forall>j. 0 < j \<and> j \<le> k \<longrightarrow> \<not> flag j)))
   \<and> ((\<exists>k. clock k - now2 > driveStateChangeMaxTimeout (configuration s))
      \<longrightarrow> (\<exists>r. setDriveStateViaPdo driveState True now1 now2 flag clock s
                 = Some (r, requestStateChange driveState now1 s)))"
proof (intro conjI impI)
  show "setDriveStateViaPdo driveState False now1 now2 flag clock s
     = Some (True, s\<lparr>stateChangeSuccessful := False,
                     conductStateChange := True,
                     targetDriveState := driveState,
                     hasRead := False,
                     driveStateChangeTimePoint := now1\<rparr>)"
    by (simp add: setDriveStateViaPdo_unfold requestStateChange_def)
next
  assume "setDriveStateViaPdo driveState waitForState now1 now2 flag clock s = Some (False, s')"
  then show "waitForState"
    by (simp add: setDriveStateViaPdo_unfold split: if_splits)
next
  let ?mx = "driveStateChangeMaxTimeout (configuration s)"
  assume a: "setDriveStateViaPdo driveState waitForState now1 now2 flag clock s = Some (False, s')"
  then have "waitForStateChange (\<lambda>i. 0 < i \<and> flag i) clock now2 ?mx 0 = Some False"
    by (auto simp: setDriveStateViaPdo_unfold split: if_splits)
  from waitForStateChange_outcome[OF this]
  obtain k where k: "clock k - now2 > ?mx" "\<not> (0 < k \<and> flag k)"
    "\<forall>j. j < k \<longrightarrow> \<not> (0 < j \<and> flag j)"
    unfolding waitOutcome_def by auto
  have "\<not> flag j" if "0 < j \<and> j \<le> k" for j
  proof (cases "j = k")
    case True
    with that k(2) show ?thesis by simp
  next
    case False
    with that have "j < k" by simp
    with k(3) that show ?thesis by blast
  qed
  with k(1) show "\<exists>k. clock k - now2 > ?mx \<and> (\<forall>j. 0 < j \<and> j \<le> k \<longrightarrow> \<not> flag j)"
    by blast
next
  assume "\<exists>k. clock k - now2 > driveStateChangeMaxTimeout (configuration s)"
  then obtain k where "clock k - now2 > driveStateChangeMaxTimeout (configuration s)" ..
  then have "\<exists>r. waitForStateChange (\<lambda>i. 0 < i \<and> flag i)
       clock now2 (driveStateChangeMaxTimeout (configuration s)) 0 = Some r"
    by (intro waitForStateChange_returns[where k = k]) auto
  then show "\<exists>r. setDriveStateViaPdo driveState True now1 now2 flag clock s
                 = Some (r, requestStateChange driveState now1 s)"
    by (auto simp: setDriveStateViaPdo_unfold)
qed

theorem setDriveStateViaPdo_result_witness:
  "setDriveStateViaPdo OperationEnabled False 7 8 neverSet exampleClock exampleElmo
     = Some (True, requestStateChange OperationEnabled 7 exampleElmo) \<and>
   setDriveStateViaPdo OperationEnabled True 7 8 neverSet exampleClock exampleElmo
     = Some (False, requestStateChange OperationEnabled 7 exampleElmo) \<and>
   (\<exists>k. exampleClock k - 8 > driveStateChangeMaxTimeout (configuration exampleElmo) \<and>
        (\<forall>j. 0 < j \<and> j \<le> k \<longrightarrow> \<not> neverSet j))"
  using setDriveStateViaPdo_result [of OperationEnabled 7 8 neverSet exampleClock exampleElmo
      True "requestStateChange OperationEnabled 7 exampleElmo"]
  by (simp add: example_defs setDriveStateViaPdo_unfold waitForStateChange.simps)

section \<open>The non-blocking engine (C3)\<close>

lemma getNextStateTransitionControlword_frame:
  "configuration (snd (getNextStateTransitionControlword env a b s)) = configuration s \<and>
   targetDriveState (snd (getNextStateTransitionControlword env a b s)) = targetDriveState s \<and>
   numberOfSuccessfulTargetStateReadings (snd (getNextStateTransitionControlword env a b s))
     = numberOfSuccessfulTargetStateReadings s \<and>
   conductStateChange (snd (getNextStateTransitionControlword env a b s)) = conductStateChange s \<and>
   stateChangeSuccessful (snd (getNextStateTransitionControlword env a b s))
     = stateChangeSuccessful s \<and>
   hasRead (snd (getNextStateTransitionControlword env a b s)) = hasRead s \<and>
   busLog (snd (getNextStateTransitionControlword env a b s)) = busLog s"
  by (cases a; cases b)
     (simp_all add: getNextStateTransitionControlword_def addErrorToReading_def)



lemmas engine_defs = engagePdoStateMachine_def getNextStateTransitionControlword_def
  requestStateChange_def pendingElmo_def addErrorToReading_def addError_def setAllFalse_def



text \<open>
  Outside C3: a request writes five members (lines 502-515) and not the success counter,
  which only a success sets to zero (line 890). A count left by a request that was
  replaced before it succeeded is still there when the next request starts.
\<close>

lemma requestStateChange_keeps_counter:
  "numberOfSuccessfulTargetStateReadings (requestStateChange driveState now1 s)
     = numberOfSuccessfulTargetStateReadings s"
  by (simp add: requestStateChange_def)

section \<open>Configuration before cyclic operation (C5)\<close>

lemmas mailboxStep_defs = mailboxStep_def engineFlagsKept_def addsNoConfigurationError_def

lemma mailboxStep_refl: "mailboxStep s s"
  by (simp add: mailboxStep_def engineFlagsKept_def addsNoConfigurationError_def)

lemma mailboxStep_trans: "mailboxStep s s1 \<Longrightarrow> mailboxStep s1 s2 \<Longrightarrow> mailboxStep s s2"
  by (auto simp: mailboxStep_def engineFlagsKept_def addsNoConfigurationError_def)

lemma mailboxStep_sdoVerifyWrite:
  "mailboxStep s (snd (sdoVerifyWrite env index subindex ca v s))"
  by (simp add: mailboxStep_defs sdoVerifyWrite_def Let_def)

lemma mailboxStep_setDriveStateViaSdo:
  "mailboxStep s (snd (setDriveStateViaSdo env driveState s))"
  by (cases driveState;
      cases "getDriveState env (ucast (sdoReadValue env (length (busLog s))))")
     (simp_all add: mailboxStep_defs sdo_defs addError_def Let_def)

lemma mailboxStep_configureRxPdo: "mailboxStep s (snd (configureRxPdo rxType s))"
  by (simp add: mailboxStep_defs configureRxPdo_def addErrorToReading_def addError_def)

lemma mailboxStep_configureTxPdo: "mailboxStep s (snd (configureTxPdo txType s))"
  by (simp add: mailboxStep_defs configureTxPdo_def addErrorToReading_def addError_def)

lemma mailboxStep_mapPdos: "mailboxStep s (snd (mapPdos env rxType txType s))"
  by (cases rxType; cases txType) (simp_all add: mailboxStep_defs map_defs Let_def)

lemma mailboxStep_autoConfigurePdoSizes: "mailboxStep s (autoConfigurePdoSizes env s)"
  by (simp add: mailboxStep_defs autoConfigurePdoSizes_def Let_def)

lemma sdoVerifyWrite_configuration:
  "configuration (snd (sdoVerifyWrite env index subindex ca v s)) = configuration s"
  by (simp add: sdoVerifyWrite_def Let_def)

lemma autoConfigurePdoSizes_configuration:
  "configuration (autoConfigurePdoSizes env s) = configuration s"
  by (simp add: autoConfigurePdoSizes_def Let_def)

lemma runPreopConfiguration_bestEffort:
  "runPreopConfiguration env s = bestEffort (preopSteps env) s"
proof -
  have first: "(if motorRatedCurrentA (configuration s) = 0
             then (let ((r, motorRatedCurrent), s') =
                         sendSdoRead env OD_INDEX_MOTOR_RATED_CURRENT 0 False s;
                       c = (configuration s')\<lparr>motorRatedCurrentA :=
                              real (unat motorRatedCurrent) / 1000\<rparr>
                   in (True \<and> r,
                       s'\<lparr>configuration := c, reading := configureReading c (reading s')\<rparr>))
             else (True, s)) = readRatedCurrentIfUnset env s"
    by (simp add: readRatedCurrentIfUnset_def Let_def split_def)
  obtain r1 s1 where 1: "readRatedCurrentIfUnset env s = (r1, s1)"
    by (cases "readRatedCurrentIfUnset env s")
  obtain r2 s2 where 2: "setDriveStateViaSdo env ReadyToSwitchOn s1 = (r2, s2)"
    by (cases "setDriveStateViaSdo env ReadyToSwitchOn s1")
  obtain r3 s3 where 3: "mapPdos env (rxPdoTypeEnum (configuration s2))
      (txPdoTypeEnum (configuration s2)) s2 = (r3, s3)"
    by (cases "mapPdos env (rxPdoTypeEnum (configuration s2))
      (txPdoTypeEnum (configuration s2)) s2")
  obtain r4 s4 where 4: "sdoVerifyWrite env OD_INDEX_MODES_OF_OPERATION 0 False
      (Int8 (modeOfOperationEnum (configuration s3))) s3 = (r4, s4)"
    by (cases "sdoVerifyWrite env OD_INDEX_MODES_OF_OPERATION 0 False
      (Int8 (modeOfOperationEnum (configuration s3))) s3")
  define s5 where "s5 = autoConfigurePdoSizes env s4"
  obtain r6 s6 where 6: "sdoVerifyWrite env OD_INDEX_MOTOR_RATED_CURRENT 0 False
      (UInt32 (word_of_int (c_round (1000 * motorRatedCurrentA (configuration s5))))) s5 = (r6, s6)"
    by (cases "sdoVerifyWrite env OD_INDEX_MOTOR_RATED_CURRENT 0 False
      (UInt32 (word_of_int (c_round (1000 * motorRatedCurrentA (configuration s5))))) s5")
  have c6: "configuration s6 = configuration s5"
    by (metis 6 sdoVerifyWrite_configuration snd_conv)
  obtain r7 s7 where 7: "sdoVerifyWrite env OD_INDEX_MOTOR_RATED_TORQUE 0 False
      (UInt32 (word_of_int (c_round (1000 * motorRatedCurrentA (configuration s5))))) s6 = (r7, s7)"
    by (cases "sdoVerifyWrite env OD_INDEX_MOTOR_RATED_TORQUE 0 False
      (UInt32 (word_of_int (c_round (1000 * motorRatedCurrentA (configuration s5))))) s6")
  obtain r8 s8 where 8: "sdoVerifyWrite env OD_INDEX_MAX_CURRENT 0 False
      (UInt16 (word_of_int \<lfloor>1000 * maxCurrentA (configuration s7)\<rfloor>)) s7 = (r8, s8)"
    by (cases "sdoVerifyWrite env OD_INDEX_MAX_CURRENT 0 False
      (UInt16 (word_of_int \<lfloor>1000 * maxCurrentA (configuration s7)\<rfloor>)) s7")
  have lhs: "runPreopConfiguration env s =
      (if r1 \<and> r2 \<and> r3 \<and> r4 \<and> r6 \<and> r7 \<and> r8 then (True, s8)
       else (False, addErrorToReading ConfigurationError s8))"
    unfolding runPreopConfiguration_def first
    by (simp add: 1 2 3 4 s5_def[symmetric] 6 7 8 Let_def)
  have rhs: "bestEffort (preopSteps env) s =
      (if r1 \<and> r2 \<and> r3 \<and> r4 \<and> r6 \<and> r7 \<and> r8 then (True, s8)
       else (False, addErrorToReading ConfigurationError s8))"
    unfolding bestEffort_def preopSteps_def
    by (simp add: 1 2 3 4 s5_def[symmetric] 6 c6 7 8 Let_def)
  show ?thesis by (simp only: lhs rhs)
qed

subsection \<open>Every step of the configuration is a mailbox step\<close>

lemma mailboxStep_readRatedCurrentIfUnset:
  "mailboxStep s (snd (readRatedCurrentIfUnset env s))"
  by (simp add: mailboxStep_defs readRatedCurrentIfUnset_def sendSdoRead_def
      configureReading_def Let_def)

lemma runEveryStep_mailboxStep:
  assumes "\<forall>step \<in> set steps. \<forall>s. mailboxStep s (snd (step s))"
  shows "mailboxStep s (snd (runEveryStep steps s))"
  using assms
proof (induction steps arbitrary: s)
  case Nil
  show ?case by (simp add: mailboxStep_refl)
next
  case (Cons step steps)
  obtain r s1 where st: "step s = (r, s1)" by (cases "step s")
  obtain rs s2 where rest: "runEveryStep steps s1 = (rs, s2)" by (cases "runEveryStep steps s1")
  from Cons.prems st have a: "mailboxStep s s1" by (metis list.set_intros(1) snd_conv)
  from Cons.IH[of s1] Cons.prems rest have b: "mailboxStep s1 s2" by simp
  from mailboxStep_trans[OF a b] show ?case by (simp add: st rest)
qed

lemma preopSteps_mailboxStep:
  "\<forall>step \<in> set (preopSteps env). \<forall>s. mailboxStep s (snd (step s))"
  by (simp add: preopSteps_def mailboxStep_readRatedCurrentIfUnset
      mailboxStep_setDriveStateViaSdo mailboxStep_mapPdos mailboxStep_sdoVerifyWrite
      mailboxStep_autoConfigurePdoSizes)

lemma runPreopConfiguration_flags:
  "engineFlagsKept s (snd (runPreopConfiguration env s))"
proof -
  obtain rs s1 where r: "runEveryStep (preopSteps env) s = (rs, s1)"
    by (cases "runEveryStep (preopSteps env) s")
  from runEveryStep_mailboxStep[OF preopSteps_mailboxStep[of env], of s] r
  have "engineFlagsKept s s1" by (simp add: mailboxStep_def)
  then show ?thesis
    by (simp add: runPreopConfiguration_bestEffort bestEffort_def r engineFlagsKept_def
        addErrorToReading_def)
qed

lemma runPreopConfiguration_errors:
  "count_list (errors (reading (snd (runPreopConfiguration env s)))) ConfigurationError
     = count_list (errors (reading s)) ConfigurationError
       + (if fst (runPreopConfiguration env s) then 0 else 1)
   \<and> (ConfigurationError \<in> set (newErrors s (snd (runPreopConfiguration env s)))
        \<longleftrightarrow> \<not> fst (runPreopConfiguration env s))"
proof -
  obtain rs s1 where r: "runEveryStep (preopSteps env) s = (rs, s1)"
    by (cases "runEveryStep (preopSteps env) s")
  from runEveryStep_mailboxStep[OF preopSteps_mailboxStep[of env], of s] r
  obtain es where es: "errors (reading s1) = errors (reading s) @ es"
    "ConfigurationError \<notin> set es"
    by (auto simp: mailboxStep_def addsNoConfigurationError_def)
  then show ?thesis
    by (simp add: runPreopConfiguration_bestEffort bestEffort_def r newErrors_def
        addErrorToReading_def addError_def)
qed

subsection \<open>The calls on the bus do not depend on the outcomes\<close>

lemma sameBusInputs_readRatedCurrentIfUnset:
  assumes "sameBusInputs s s'"
  shows "sameBusInputs (snd (readRatedCurrentIfUnset (env\<lparr>sdoSuccess := outcome\<rparr>) s))
           (snd (readRatedCurrentIfUnset env s'))"
  using assms
  by (simp add: sameBusInputs_def readRatedCurrentIfUnset_def sendSdoRead_def Let_def)

lemma stateTransitionViaSdo_busLog:
  "busLog (snd (stateTransitionViaSdo env t s))
     = busLog s @ (if t = T_unimplemented then []
                   else [SdoWrite OD_INDEX_CONTROLWORD 0 False
                           (UInt16 (setStateTransition env t (defaultControlword env)))])"
  by (cases t)
     (simp_all add: stateTransitionViaSdo_def setControlwordViaSdo_def sendSdoWrite_def
        addErrorToReading_def Let_def)

lemma stateTransitionViaSdo_configuration:
  "configuration (snd (stateTransitionViaSdo env t s)) = configuration s"
  by (cases t)
     (simp_all add: stateTransitionViaSdo_def setControlwordViaSdo_def sendSdoWrite_def
        addErrorToReading_def Let_def)

lemma stateTransitionsViaSdo_busLog:
  "busLog (snd (stateTransitionsViaSdo env ts (b, s)))
     = busLog s @ map (\<lambda>t. SdoWrite OD_INDEX_CONTROLWORD 0 False
                            (UInt16 (setStateTransition env t (defaultControlword env))))
                    (filter (\<lambda>t. t \<noteq> T_unimplemented) ts)"
proof (induction ts arbitrary: b s)
  case Nil
  show ?case by simp
next
  case (Cons t ts)
  show ?case
    by (simp add: split_def Let_def Cons.IH stateTransitionViaSdo_busLog)
qed

lemma stateTransitionsViaSdo_configuration:
  "configuration (snd (stateTransitionsViaSdo env ts (b, s))) = configuration s"
proof (induction ts arbitrary: b s)
  case Nil
  show ?case by simp
next
  case (Cons t ts)
  show ?case
    by (simp add: split_def Let_def Cons.IH stateTransitionViaSdo_configuration)
qed

lemma sameBusInputs_setDriveStateViaSdo:
  assumes "sameBusInputs s s'"
  shows "sameBusInputs (snd (setDriveStateViaSdo (env\<lparr>sdoSuccess := outcome\<rparr>) driveState s))
           (snd (setDriveStateViaSdo env driveState s'))"
proof -
  from assms have l: "busLog s = busLog s'" and c: "configuration s = configuration s'"
    by (simp_all add: sameBusInputs_def)
  show ?thesis
    unfolding sameBusInputs_def setDriveStateViaSdo_def getStatuswordViaSdo_def
      sendSdoReadUInt16_def sendSdoRead_def l
    by (cases driveState;
        cases "getDriveState env (ucast (sdoReadValue env (length (busLog s'))))")
       (simp_all add: c Let_def stateTransitionsViaSdo_busLog
          stateTransitionsViaSdo_configuration addErrorToReading_def
          del: stateTransitionsViaSdo.simps)
qed

lemma sdoVerifyWrites_busLog:
  "busLog (snd (sdoVerifyWrites env ws (b, s)))
     = busLog s @ map (\<lambda>w. SdoVerifyWrite (fst w) (fst (snd w)) False (snd (snd w))) ws"
proof (induction ws arbitrary: b s)
  case Nil
  show ?case by simp
next
  case (Cons w ws)
  obtain index subindex v where w: "w = (index, subindex, v)" by (cases w) auto
  show ?case
    by (simp add: w split_def Let_def Cons.IH sdoVerifyWrite_def)
qed

lemma sdoVerifyWrites_configuration:
  "configuration (snd (sdoVerifyWrites env ws (b, s))) = configuration s"
proof (induction ws arbitrary: b s)
  case Nil
  show ?case by simp
next
  case (Cons w ws)
  obtain index subindex v where w: "w = (index, subindex, v)" by (cases w) auto
  show ?case
    by (simp add: w split_def Let_def Cons.IH sdoVerifyWrite_def)
qed

lemma configurePdo_frame:
  "busLog (snd (configureRxPdo rxType s)) = busLog s"
  "configuration (snd (configureRxPdo rxType s)) = configuration s"
  "busLog (snd (configureTxPdo txType s)) = busLog s"
  "configuration (snd (configureTxPdo txType s)) = configuration s"
  by (simp_all add: configureRxPdo_def configureTxPdo_def addErrorToReading_def)

lemma sameBusInputs_mapPdos:
  assumes "sameBusInputs s s'"
  shows "sameBusInputs (snd (mapPdos (env\<lparr>sdoSuccess := outcome\<rparr>) rxType txType s))
           (snd (mapPdos env rxType txType s'))"
proof -
  from assms have l: "busLog s = busLog s'" and c: "configuration s = configuration s'"
    by (simp_all add: sameBusInputs_def)
  show ?thesis
    unfolding sameBusInputs_def mapPdos_def
    by (cases rxType; cases txType)
       (simp_all add: l c Let_def split_def sdoVerifyWrites_busLog sdoVerifyWrites_configuration
          configurePdo_frame addErrorToReading_def
          del: sdoVerifyWrites.simps)
qed

lemma sameBusInputs_sdoVerifyWrite:
  assumes "sameBusInputs s s'"
  shows "sameBusInputs (snd (sdoVerifyWrite (env\<lparr>sdoSuccess := outcome\<rparr>) index subindex ca v s))
           (snd (sdoVerifyWrite env index subindex ca v s'))"
  using assms by (simp add: sameBusInputs_def sdoVerifyWrite_def Let_def)

lemma sameBusInputs_autoConfigurePdoSizes:
  assumes "sameBusInputs s s'"
  shows "sameBusInputs (autoConfigurePdoSizes (env\<lparr>sdoSuccess := outcome\<rparr>) s)
           (autoConfigurePdoSizes env s')"
  using assms by (simp add: sameBusInputs_def autoConfigurePdoSizes_def Let_def)

lemma runEveryStep_sameBusInputs:
  assumes "list_all2 (\<lambda>step step'. \<forall>s s'. sameBusInputs s s' \<longrightarrow>
              sameBusInputs (snd (step s)) (snd (step' s'))) steps steps'"
    and "sameBusInputs s s'"
  shows "sameBusInputs (snd (runEveryStep steps s)) (snd (runEveryStep steps' s'))"
  using assms
proof (induction arbitrary: s s' rule: list_all2_induct)
  case Nil
  then show ?case by simp
next
  case (Cons step steps step' steps')
  obtain r s1 where st: "step s = (r, s1)" by (cases "step s")
  obtain r' s1' where st': "step' s' = (r', s1')" by (cases "step' s'")
  from Cons.hyps(1) Cons.prems st st' have "sameBusInputs s1 s1'" by (metis snd_conv)
  from Cons.IH[OF this] show ?case by (simp add: st st' split_def Let_def)
qed

lemma preopSteps_sameBusInputs:
  "list_all2 (\<lambda>step step'. \<forall>s s'. sameBusInputs s s' \<longrightarrow>
      sameBusInputs (snd (step s)) (snd (step' s')))
     (preopSteps (env\<lparr>sdoSuccess := outcome\<rparr>)) (preopSteps env)"
proof -
  have cfg: "configuration s = configuration s'" if "sameBusInputs s s'" for s s'
    using that by (simp add: sameBusInputs_def)
  show ?thesis
    unfolding preopSteps_def
    by (simp add: sameBusInputs_readRatedCurrentIfUnset sameBusInputs_setDriveStateViaSdo
        sameBusInputs_mapPdos sameBusInputs_sdoVerifyWrite sameBusInputs_autoConfigurePdoSizes
        cfg)
qed

lemma runPreopConfiguration_busLog:
  "busLog (snd (runPreopConfiguration (env\<lparr>sdoSuccess := outcome\<rparr>) s))
     = busLog (snd (runPreopConfiguration env s))"
proof -
  have "sameBusInputs s s" by (simp add: sameBusInputs_def)
  from runEveryStep_sameBusInputs[OF preopSteps_sameBusInputs this]
  have "busLog (snd (runEveryStep (preopSteps (env\<lparr>sdoSuccess := outcome\<rparr>)) s))
          = busLog (snd (runEveryStep (preopSteps env) s))"
    by (simp add: sameBusInputs_def)
  then show ?thesis
    by (simp add: runPreopConfiguration_bestEffort bestEffort_def split_def Let_def
        addErrorToReading_def)
qed

lemma runEveryStep_length: "length (fst (runEveryStep steps s)) = length steps"
  by (induction steps arbitrary: s) (simp_all add: split_def Let_def)

text \<open>
  C5. \<open>runPreopConfiguration\<close> is the best-effort run of its steps: every step is
  executed, its result is the conjunction of the results of all steps, the calls it makes
  on the bus are the same whichever mailbox calls fail (no step is skipped after a
  failure), and it records a ConfigurationError exactly when its result is false.
\<close>

theorem runPreopConfiguration_best_effort:
  "runPreopConfiguration env s = bestEffort (preopSteps env) s
   \<and> length (fst (runEveryStep (preopSteps env) s)) = length (preopSteps env)
   \<and> fst (runPreopConfiguration env s) = list_all id (fst (runEveryStep (preopSteps env) s))
   \<and> busLog (snd (runPreopConfiguration (env\<lparr>sdoSuccess := outcome\<rparr>) s))
       = busLog (snd (runPreopConfiguration env s))
   \<and> (ConfigurationError \<in> set (newErrors s (snd (runPreopConfiguration env s)))
        \<longleftrightarrow> \<not> fst (runPreopConfiguration env s))"
proof (intro conjI)
  show "runPreopConfiguration env s = bestEffort (preopSteps env) s"
    by (rule runPreopConfiguration_bestEffort)
  show "length (fst (runEveryStep (preopSteps env) s)) = length (preopSteps env)"
    by (rule runEveryStep_length)
  show "fst (runPreopConfiguration env s) = list_all id (fst (runEveryStep (preopSteps env) s))"
    by (simp add: runPreopConfiguration_bestEffort bestEffort_def split_def Let_def)
  show "busLog (snd (runPreopConfiguration (env\<lparr>sdoSuccess := outcome\<rparr>) s))
       = busLog (snd (runPreopConfiguration env s))"
    by (rule runPreopConfiguration_busLog)
  show "ConfigurationError \<in> set (newErrors s (snd (runPreopConfiguration env s)))
        \<longleftrightarrow> \<not> fst (runPreopConfiguration env s)"
    using runPreopConfiguration_errors by blast
qed

theorem runPreopConfiguration_best_effort_witness:
  "\<not> fst (runPreopConfiguration (failingAt 3 exampleEnv) exampleElmo) \<and>
   fst (runPreopConfiguration exampleEnv exampleElmo) \<and>
   ConfigurationError \<in> set (newErrors exampleElmo
     (snd (runPreopConfiguration (failingAt 3 exampleEnv) exampleElmo))) \<and>
   ConfigurationError \<notin> set (newErrors exampleElmo
     (snd (runPreopConfiguration exampleEnv exampleElmo))) \<and>
   length (busLog (snd (runPreopConfiguration exampleEnv exampleElmo))) = 18 \<and>
   busLog (snd (runPreopConfiguration (failingAt 3 exampleEnv) exampleElmo))
     = busLog (snd (runPreopConfiguration exampleEnv exampleElmo))"
proof -
  have ok: "runPreopConfiguration exampleEnv exampleElmo
      = (True, snd (runPreopConfiguration exampleEnv exampleElmo))"
    "length (busLog (snd (runPreopConfiguration exampleEnv exampleElmo))) = 18"
    by (simp_all add: example_defs runPreopConfiguration_def sdo_defs map_defs
        autoConfigurePdoSizes_def Let_def)
  have failed: "\<not> fst (runPreopConfiguration (failingAt 3 exampleEnv) exampleElmo)"
    by (simp add: example_defs runPreopConfiguration_def sdo_defs map_defs
        autoConfigurePdoSizes_def Let_def)
  have f: "failingAt 3 exampleEnv = exampleEnv\<lparr>sdoSuccess := (\<lambda>n. n \<noteq> 3)\<rparr>"
    by (simp add: failingAt_def)
  from ok have ok': "fst (runPreopConfiguration exampleEnv exampleElmo)"
    by (metis fst_conv)
  show ?thesis
    using runPreopConfiguration_best_effort
      [where env = exampleEnv and outcome = "\<lambda>n. n \<noteq> 3" and s = exampleElmo]
      runPreopConfiguration_best_effort
      [where env = "failingAt 3 exampleEnv" and outcome = "\<lambda>n. n \<noteq> 3" and s = exampleElmo]
      ok' ok(2) failed
    unfolding f by blast
qed

section \<open>Fresh readings for the engine (C4)\<close>

lemma engagePdoStateMachine_flags:
  "(hasRead (engagePdoStateMachine env now1 now2 s) \<longrightarrow>
      hasRead s \<and> \<not> conductStateChange (engagePdoStateMachine env now1 now2 s) \<and>
      stateChangeSuccessful (engagePdoStateMachine env now1 now2 s))"
  using getNextStateTransitionControlword_frame
    [of env "targetDriveState s" "getDriveState env (statusword (reading s))" s]
  by (simp add: engagePdoStateMachine_def Let_def split_def)

lemma writeRxPdo_flags: "engineFlagsKept s (writeRxPdo s)"
  by (cases "currentRxPdoTypeEnum s")
     (simp_all add: engineFlagsKept_def writeRxPdo_def addErrorToReading_def)

lemma updateWrite_not_enabled:
  assumes "\<not> engineEnabled s"
  shows "engineFlagsKept s (updateWrite env now1 now2 s)"
  using assms writeRxPdo_flags[of s]
  by (auto simp: updateWrite_def engineEnabled_def engineFlagsKept_def)

lemma updateWrite_hasRead:
  "hasRead (updateWrite env now1 now2 s) \<Longrightarrow> hasRead s"
  using writeRxPdo_flags[of s]
    writeRxPdo_flags[of "engagePdoStateMachine env now1 now2 s"]
    engagePdoStateMachine_flags[of env now1 now2 s]
  by (auto simp: updateWrite_def engineFlagsKept_def split: if_splits)

lemma call_flags:
  assumes "c \<noteq> UpdateRead" "\<forall>now1 now2. c \<noteq> UpdateWrite now1 now2"
    "\<forall>driveState now1. c \<noteq> SetDriveStateViaPdo driveState now1"
  shows "engineFlagsKept s (call env c s)"
  using assms mailboxStep_setDriveStateViaSdo mailboxStep_mapPdos
    mailboxStep_configureRxPdo mailboxStep_configureTxPdo runPreopConfiguration_flags
    mailboxStep_autoConfigurePdoSizes
  by (cases c)
     (simp_all add: mailboxStep_def engineFlagsKept_def stageCommand_def loadConfiguration_def
        shutdown_def Let_def)

lemma call_hasRead:
  assumes "c \<noteq> UpdateRead" "hasRead (call env c s)"
  shows "hasRead s"
proof (cases c)
  case UpdateRead
  with assms show ?thesis by simp
next
  case (UpdateWrite now1 now2)
  with assms updateWrite_hasRead show ?thesis by simp
next
  case (SetDriveStateViaPdo driveState now1)
  with assms show ?thesis by (simp add: requestStateChange_def)
qed (use assms call_flags[of c s env] in \<open>simp_all add: engineFlagsKept_def\<close>)

lemma call_not_enabled:
  assumes "c \<noteq> UpdateRead" "\<not> engineEnabled s"
  shows "\<not> engineEnabled (call env c s)"
proof (cases c)
  case UpdateRead
  with assms show ?thesis by simp
next
  case (UpdateWrite now1 now2)
  with assms updateWrite_not_enabled[of s env now1 now2] show ?thesis
    by (simp add: engineEnabled_def engineFlagsKept_def)
next
  case (SetDriveStateViaPdo driveState now1)
  then show ?thesis by (simp add: requestStateChange_def engineEnabled_def)
qed (use assms call_flags[of c s env] in \<open>simp_all add: engineFlagsKept_def engineEnabled_def\<close>)

lemma calls_not_enabled:
  assumes "UpdateRead \<notin> set cs" "\<not> engineEnabled s"
  shows "\<not> engineEnabled (calls env cs s)"
  using assms
proof (induction cs arbitrary: s)
  case Nil
  then show ?case by simp
next
  case (Cons c cs)
  from Cons.prems have "c \<noteq> UpdateRead" "UpdateRead \<notin> set cs" by auto
  with Cons.IH[of "call env c s"] call_not_enabled[of c s env] Cons.prems(2)
  show ?case by simp
qed

text \<open>
  C4 (as amended). A call of the engine that leaves the fresh-reading flag set has
  declared success and cleared the pending flag; every other call clears the
  fresh-reading flag. \<open>updateWrite\<close> invokes the engine exactly when the change is pending
  and the flag is set. No call other than \<open>updateRead\<close> sets the flag. So after a call of
  the engine the guard of the engine stays false over every run of calls without a
  cyclic read: between two invocations of the engine there is a cyclic read.
\<close>

theorem engine_needs_fresh_reading:
  "(hasRead (engagePdoStateMachine env now1 now2 s) \<longrightarrow>
      \<not> conductStateChange (engagePdoStateMachine env now1 now2 s) \<and>
      stateChangeSuccessful (engagePdoStateMachine env now1 now2 s))
   \<and> (\<not> engineEnabled s \<and> modeOfOperation s \<noteq> ModeOfOperationEnum_NA \<longrightarrow>
        updateWrite env now1 now2 s = writeRxPdo s)
   \<and> (engineEnabled s \<and> modeOfOperation s \<noteq> ModeOfOperationEnum_NA \<longrightarrow>
        updateWrite env now1 now2 s = writeRxPdo (engagePdoStateMachine env now1 now2 s))
   \<and> (c \<noteq> UpdateRead \<and> hasRead (call env c s) \<longrightarrow> hasRead s)
   \<and> (UpdateRead \<notin> set cs \<longrightarrow>
        \<not> engineEnabled (calls env cs (engagePdoStateMachine env now1 now2 s)))"
proof (intro conjI impI)
  assume "hasRead (engagePdoStateMachine env now1 now2 s)"
  with engagePdoStateMachine_flags[of env now1 now2 s]
  show "\<not> conductStateChange (engagePdoStateMachine env now1 now2 s)"
    "stateChangeSuccessful (engagePdoStateMachine env now1 now2 s)" by simp_all
next
  assume "\<not> engineEnabled s \<and> modeOfOperation s \<noteq> ModeOfOperationEnum_NA"
  then show "updateWrite env now1 now2 s = writeRxPdo s"
    by (auto simp: updateWrite_def engineEnabled_def)
next
  assume "engineEnabled s \<and> modeOfOperation s \<noteq> ModeOfOperationEnum_NA"
  then show "updateWrite env now1 now2 s = writeRxPdo (engagePdoStateMachine env now1 now2 s)"
    by (auto simp: updateWrite_def engineEnabled_def)
next
  assume "c \<noteq> UpdateRead \<and> hasRead (call env c s)"
  then show "hasRead s" using call_hasRead by blast
next
  assume "UpdateRead \<notin> set cs"
  moreover have "\<not> engineEnabled (engagePdoStateMachine env now1 now2 s)"
    using engagePdoStateMachine_flags[of env now1 now2 s] by (auto simp: engineEnabled_def)
  ultimately show "\<not> engineEnabled (calls env cs (engagePdoStateMachine env now1 now2 s))"
    by (rule calls_not_enabled)
qed

lemmas cycle_defs = updateRead_def updateWrite_def writeRxPdo_def sendSdoReadUInt16_def
  sendSdoRead_def
  addFault_def enabledEnv_def

theorem engine_needs_fresh_reading_witness:
  "engineEnabled (calls enabledEnv [UpdateRead] pendingElmo) \<and>
   modeOfOperation (calls enabledEnv [UpdateRead] pendingElmo) \<noteq> ModeOfOperationEnum_NA \<and>
   \<not> hasRead (engagePdoStateMachine enabledEnv 10 11 (calls enabledEnv [UpdateRead] pendingElmo)) \<and>
   UpdateRead \<notin> set [UpdateWrite 20 21, SetDriveStateViaPdo SwitchedOn 30, UpdateWrite 40 41] \<and>
   \<not> engineEnabled
       (calls enabledEnv [UpdateWrite 20 21, SetDriveStateViaPdo SwitchedOn 30, UpdateWrite 40 41]
          (engagePdoStateMachine enabledEnv 10 11 (calls enabledEnv [UpdateRead] pendingElmo))) \<and>
   updateWrite enabledEnv 10 11 (calls enabledEnv [UpdateRead] pendingElmo)
     = writeRxPdo (engagePdoStateMachine enabledEnv 10 11
         (calls enabledEnv [UpdateRead] pendingElmo))"
  using engine_needs_fresh_reading
    [of enabledEnv 10 11 "calls enabledEnv [UpdateRead] pendingElmo" UpdateRead
      "[UpdateWrite 20 21, SetDriveStateViaPdo SwitchedOn 30, UpdateWrite 40 41]"]
  by (simp add: example_defs engine_defs cycle_defs engineEnabled_def)

text \<open>
  C4 as stated fails: in the third cycle after a request, with a minimum of three
  readings, the engine declares success and returns with the fresh-reading flag still
  set.
\<close>

theorem engine_keeps_flag_counterexample:
  "hasRead
     (calls enabledEnv
        [UpdateRead, UpdateWrite 10 11, UpdateRead, UpdateWrite 20 21, UpdateRead]
        pendingElmo) \<and>
   conductStateChange
     (calls enabledEnv
        [UpdateRead, UpdateWrite 10 11, UpdateRead, UpdateWrite 20 21, UpdateRead]
        pendingElmo) \<and>
   hasRead
     (engagePdoStateMachine enabledEnv 30 31
        (calls enabledEnv
           [UpdateRead, UpdateWrite 10 11, UpdateRead, UpdateWrite 20 21, UpdateRead]
           pendingElmo)) \<and>
   stateChangeSuccessful
     (engagePdoStateMachine enabledEnv 30 31
        (calls enabledEnv
           [UpdateRead, UpdateWrite 10 11, UpdateRead, UpdateWrite 20 21, UpdateRead]
           pendingElmo))"
  by (simp add: example_defs engine_defs cycle_defs)

end
